theory Spec2Isabelle
  imports Main "HOL-Library.Sublist" "HOL-Library.AList"
begin

section \<open>Strings and JSON values\<close>

text \<open>
  JavaScript strings are modelled as \<^typ>\<open>string\<close> (lists of 8-bit characters), so the
  model covers ASCII text; the Unicode case mappings of \<^verbatim>\<open>toLowerCase\<close> outside
  \<^verbatim>\<open>A-Z\<close> are not modelled. JSON numbers are integers.
\<close>

definition newline :: char where
  "newline = CHR 0x0A"

text \<open>\<^verbatim>\<open>content.split('\n')\<close>: the segments between newlines; never empty.\<close>

fun split :: "string \<Rightarrow> string list" where
  "split [] = [[]]"
| "split (c # cs) =
     (if c = newline then [] # split cs
      else (case split cs of [] \<Rightarrow> [[c]] | l # ls \<Rightarrow> (c # l) # ls))"

text \<open>\<^verbatim>\<open>lines.join('\n')\<close>.\<close>

fun join :: "string list \<Rightarrow> string" where
  "join [] = []"
| "join [x] = x"
| "join (x # y # ys) = x @ newline # join (y # ys)"

text \<open>\<^verbatim>\<open>parts.join(sep)\<close> for an arbitrary separator.\<close>

fun joinWith :: "string \<Rightarrow> string list \<Rightarrow> string" where
  "joinWith sep [] = []"
| "joinWith sep [x] = x"
| "joinWith sep (x # y # ys) = x @ sep @ joinWith sep (y # ys)"

text \<open>
  \<^verbatim>\<open>xs.slice(start)\<close> with one argument: a negative start counts from the end, and
  \<^verbatim>\<open>-0\<close> is \<^verbatim>\<open>0\<close>, so \<^verbatim>\<open>slice(-0)\<close> is the whole array.
\<close>

definition slice :: "int \<Rightarrow> 'a list \<Rightarrow> 'a list" where
  "slice start xs =
     (let n = int (length xs);
          k = (if start < 0 then max (n + start) 0 else min start n)
      in drop (nat k) xs)"

text \<open>\<^verbatim>\<open>s.includes(sub)\<close>: \<open>sub\<close> occurs in \<open>s\<close> as a contiguous substring.\<close>

fun str_includes :: "string \<Rightarrow> string \<Rightarrow> bool" where
  "str_includes [] sub = (sub = [])"
| "str_includes (c # cs) sub = (prefix sub (c # cs) \<or> str_includes cs sub)"

definition toLowerChar :: "char \<Rightarrow> char" where
  "toLowerChar c =
     (let n = (of_char c :: nat) in if 65 \<le> n \<and> n \<le> 90 then char_of (n + 32) else c)"

definition toUpperChar :: "char \<Rightarrow> char" where
  "toUpperChar c =
     (let n = (of_char c :: nat) in if 97 \<le> n \<and> n \<le> 122 then char_of (n - 32) else c)"

definition toLowerCase :: "string \<Rightarrow> string" where
  "toLowerCase s = map toLowerChar s"

definition toUpperCase :: "string \<Rightarrow> string" where
  "toUpperCase s = map toUpperChar s"

text \<open>
  The decimal text of a natural number: the property name \<^verbatim>\<open>for ... in\<close> yields for an
  array index, and the digits of a duration.
\<close>

definition digit :: "nat \<Rightarrow> char" where
  "digit d = char_of (48 + d)"

fun decimal :: "nat \<Rightarrow> string" where
  "decimal n = (if n < 10 then [digit n] else decimal (n div 10) @ [digit (n mod 10)])"

declare decimal.simps [simp del]

datatype json =
    JNull
  | JBool bool
  | JNum int
  | JStr string
  | JArr "json list"
  | JObj "(string \<times> json) list"

text \<open>JavaScript truthiness of a JSON value (\<^verbatim>\<open>if (data)\<close>, \<^verbatim>\<open>params || {}\<close>).\<close>

definition truthy :: "json \<Rightarrow> bool" where
  "truthy v =
     (case v of JNull \<Rightarrow> False | JBool b \<Rightarrow> b | JNum n \<Rightarrow> n \<noteq> 0 | JStr s \<Rightarrow> s \<noteq> []
      | JArr _ \<Rightarrow> True | JObj _ \<Rightarrow> True)"

text \<open>\<^verbatim>\<open>typeof v === 'object'\<close> holds for \<^verbatim>\<open>null\<close>, arrays and objects.\<close>

definition typeof_object :: "json \<Rightarrow> bool" where
  "typeof_object v =
     (case v of JNull \<Rightarrow> True | JArr _ \<Rightarrow> True | JObj _ \<Rightarrow> True | _ \<Rightarrow> False)"

section \<open>Audit logger (logger.ts)\<close>

record Logger =
  logFile :: string
  maxSizeBytes :: nat

text \<open>The constructor; \<^verbatim>\<open>path.resolve\<close> is not modelled.\<close>

definition newLogger :: "string \<Rightarrow> nat \<Rightarrow> Logger" where
  "newLogger file maxSizeMB = \<lparr>logFile = file, maxSizeBytes = maxSizeMB * 1024 * 1024\<rparr>"

text \<open>
  The log file is its content, or \<open>None\<close> while it does not exist (\<^verbatim>\<open>stat\<close> fails with
  \<^verbatim>\<open>ENOENT\<close>, which the routine swallows). Other I/O failures are not modelled.
\<close>

definition keepLines :: "string list \<Rightarrow> nat" where
  "keepLines lines = length lines div 2"

definition trimmedContent :: "string \<Rightarrow> string" where
  "trimmedContent content =
     (let lines = split content
      in join (slice (- int (keepLines lines)) lines))"

definition checkAndTrimLogFile :: "Logger \<Rightarrow> string option \<Rightarrow> string option" where
  "checkAndTrimLogFile L file =
     (case file of
        None \<Rightarrow> None
      | Some content \<Rightarrow>
          if length content > maxSizeBytes L then Some (trimmedContent content)
          else Some content)"

text \<open>\<^verbatim>\<open>appendFile\<close> creates the file when it is missing.\<close>

definition appendFile :: "string option \<Rightarrow> string \<Rightarrow> string option" where
  "appendFile file text = (case file of None \<Rightarrow> Some text | Some content \<Rightarrow> Some (content @ text))"

definition writeLog :: "Logger \<Rightarrow> string \<Rightarrow> string option \<Rightarrow> string option" where
  "writeLog L entry file = appendFile (checkAndTrimLogFile L file) (entry @ [newline])"

definition sensitiveKeys :: "string list" where
  "sensitiveKeys = [''password'', ''token'', ''authorization'', ''auth'', ''key'', ''secret'']"

text \<open>\<^verbatim>\<open>sensitiveKeys.some(sensitive => key.toLowerCase().includes(sensitive))\<close>\<close>

definition isSensitive :: "string \<Rightarrow> bool" where
  "isSensitive key = list_ex (\<lambda>sensitive. str_includes (toLowerCase key) sensitive) sensitiveKeys"

definition REDACTED :: json where
  "REDACTED = JStr ''[REDACTED]''"

text \<open>
  \<^verbatim>\<open>removeSensitiveFields\<close> mutates its argument in place; the model returns the
  mutated value. On an array \<^verbatim>\<open>for (const key in obj)\<close> runs over the index names.
\<close>

function (sequential) removeSensitiveFields :: "json \<Rightarrow> json" where
  "removeSensitiveFields (JObj kvs) =
     JObj (map (\<lambda>(key, v).
                 if isSensitive key then (key, REDACTED)
                 else if typeof_object v then (key, removeSensitiveFields v)
                 else (key, v)) kvs)"
| "removeSensitiveFields (JArr xs) =
     JArr (map (\<lambda>(i, v).
                 if isSensitive (decimal i) then REDACTED
                 else if typeof_object v then removeSensitiveFields v
                 else v) (enumerate 0 xs))"
| "removeSensitiveFields v = v"
  by pat_completeness auto

termination removeSensitiveFields
proof -
  have elem: "size v < Suc (size_list size xs)"
    if "(i, v) \<in> set (enumerate n xs)" for i n and v :: json and xs
  proof -
    from that have "v \<in> set xs"
      by (auto simp: in_set_enumerate_eq)
    then have "size v \<le> size_list size xs"
      by (rule size_list_estimation') simp
    then show ?thesis by simp
  qed
  have field: "size v < Suc (size_list (size_prod (\<lambda>_. 0) size) kvs)"
    if "(k, v) \<in> set kvs" for k :: string and v :: json and kvs
    using that by (induction kvs) auto
  show ?thesis
    by (relation "measure size") (auto dest: elem field)
qed

text \<open>
  \<^verbatim>\<open>JSON.parse(JSON.stringify(data))\<close> is a deep copy, the identity on \<^typ>\<open>json\<close>.
\<close>

definition sanitizeData :: "json \<Rightarrow> json" where
  "sanitizeData data = (if \<not> truthy data then data else removeSensitiveFields data)"

text \<open>
  A log entry is the object handed to \<^verbatim>\<open>JSON.stringify\<close>; a property whose value is
  \<^verbatim>\<open>undefined\<close> is left out by the serialiser, so it is left out of the field list.
  An absent optional argument is \<open>None\<close>. The timestamp is an input.
\<close>

definition optional_field :: "string \<Rightarrow> json option \<Rightarrow> (string \<times> json) list" where
  "optional_field name v = (case v of None \<Rightarrow> [] | Some j \<Rightarrow> [(name, j)])"

definition sanitized_or_undefined :: "json option \<Rightarrow> json option" where
  "sanitized_or_undefined data =
     (case data of None \<Rightarrow> None
      | Some d \<Rightarrow> if truthy d then Some (sanitizeData d) else None)"

definition requestEntry ::
  "string \<Rightarrow> string \<Rightarrow> string \<Rightarrow> json option \<Rightarrow> json option \<Rightarrow> json" where
  "requestEntry timestamp method url params data =
     JObj ([(''timestamp'', JStr timestamp),
            (''type'', JStr ''REQUEST''),
            (''method'', JStr (toUpperCase method)),
            (''url'', JStr url),
            (''params'', (case params of None \<Rightarrow> JObj []
                          | Some p \<Rightarrow> if truthy p then p else JObj []))]
           @ optional_field ''data'' (sanitized_or_undefined data))"

text \<open>\<^verbatim>\<open>duration ? `${duration}ms` : undefined\<close>, for a duration in whole milliseconds.\<close>

definition durationText :: "nat option \<Rightarrow> json option" where
  "durationText duration =
     (case duration of None \<Rightarrow> None
      | Some d \<Rightarrow> if d = 0 then None else Some (JStr (decimal d @ ''ms'')))"

definition responseEntry ::
  "string \<Rightarrow> string \<Rightarrow> string \<Rightarrow> int \<Rightarrow> json option \<Rightarrow> nat option \<Rightarrow> json" where
  "responseEntry timestamp method url status data duration =
     JObj ([(''timestamp'', JStr timestamp),
            (''type'', JStr ''RESPONSE''),
            (''method'', JStr (toUpperCase method)),
            (''url'', JStr url),
            (''status'', JNum status)]
           @ optional_field ''data'' (sanitized_or_undefined data)
           @ optional_field ''duration'' (durationText duration))"

definition errorEntry ::
  "string \<Rightarrow> string \<Rightarrow> string \<Rightarrow> string \<Rightarrow> int option \<Rightarrow> string option \<Rightarrow> json option
     \<Rightarrow> json" where
  "errorEntry timestamp method url message status statusText data =
     JObj [(''timestamp'', JStr timestamp),
           (''type'', JStr ''ERROR''),
           (''method'', JStr (toUpperCase method)),
           (''url'', JStr url),
           (''error'', JObj ([(''message'', JStr message)]
              @ optional_field ''status'' (map_option JNum status)
              @ optional_field ''statusText'' (map_option JStr statusText)
              @ optional_field ''data'' (sanitized_or_undefined data)))]"

text \<open>
  \<^verbatim>\<open>JSON.stringify\<close> is the platform's serialiser and is a parameter of the logging
  operations.
\<close>

definition logRequest ::
  "(json \<Rightarrow> string) \<Rightarrow> Logger \<Rightarrow> string \<Rightarrow> string \<Rightarrow> string \<Rightarrow> json option \<Rightarrow> json option
     \<Rightarrow> string option \<Rightarrow> string option" where
  "logRequest stringify L timestamp method url params data file =
     writeLog L (stringify (requestEntry timestamp method url params data)) file"

definition logResponse ::
  "(json \<Rightarrow> string) \<Rightarrow> Logger \<Rightarrow> string \<Rightarrow> string \<Rightarrow> string \<Rightarrow> int \<Rightarrow> json option
     \<Rightarrow> nat option \<Rightarrow> string option \<Rightarrow> string option" where
  "logResponse stringify L timestamp method url status data duration file =
     writeLog L (stringify (responseEntry timestamp method url status data duration)) file"

definition logError ::
  "(json \<Rightarrow> string) \<Rightarrow> Logger \<Rightarrow> string \<Rightarrow> string \<Rightarrow> string \<Rightarrow> string \<Rightarrow> int option
     \<Rightarrow> string option \<Rightarrow> json option \<Rightarrow> string option \<Rightarrow> string option" where
  "logError stringify L timestamp method url message status statusText data file =
     writeLog L (stringify (errorEntry timestamp method url message status statusText data)) file"

text \<open>Observing a JSON value: the value found by following property names and indices.\<close>

datatype step = Key string | Idx nat

fun at_path :: "json \<Rightarrow> step list \<Rightarrow> json option" where
  "at_path j [] = Some j"
| "at_path (JObj kvs) (Key k # p) =
     (case map_of kvs k of None \<Rightarrow> None | Some v \<Rightarrow> at_path v p)"
| "at_path (JArr xs) (Idx i # p) = (if i < length xs then at_path (xs ! i) p else None)"
| "at_path _ _ = None"



text \<open>
  The content of a log file that holds the given entries: \<^verbatim>\<open>writeLog\<close> appends each
  entry followed by a newline.
\<close>

definition fileOf :: "string list \<Rightarrow> string" where
  "fileOf entries = concat (map (\<lambda>entry. entry @ [newline]) entries)"


definition sample_params :: json where
  "sample_params = JObj [(''cql'', JStr ''type = page''), (''access_token'', JStr ''s3cr3t'')]"

section \<open>Configuration and access validation (config.ts)\<close>

record ConfluenceConfig =
  baseUrl :: string
  username :: string
  apiToken :: string
  allowedSpaces :: "string list"
  debug :: bool

text \<open>\<^verbatim>\<open>allowedSpaces.includes(spaceKey)\<close>: exact string equality.\<close>

definition validateSpaceAccess :: "string \<Rightarrow> string list \<Rightarrow> bool" where
  "validateSpaceAccess spaceKey allowed = (spaceKey \<in> set allowed)"

section \<open>Data model (types.ts)\<close>

text \<open>
  Field names carry a prefix for their interface. The \<^verbatim>\<open>space\<close> and \<^verbatim>\<open>body\<close> of a page
  are optional, as the client tests for them.
\<close>

record Links =
  l_webui :: string
  l_self :: string

record PageSpace =
  ps_key :: string
  ps_name :: string

record BodyValue =
  bv_value :: string
  bv_representation :: string

record PageBody =
  b_storage :: "BodyValue option"
  b_view :: "BodyValue option"

record PageVersion =
  v_number :: int
  v_when :: string
  v_by_displayName :: string
  v_by_email :: string

record ConfluencePage =
  p_id :: string
  p_type :: string
  p_status :: string
  p_title :: string
  p_space :: "PageSpace option"
  p_body :: "PageBody option"
  p_version :: PageVersion
  p_links :: Links

record ConfluenceSpace =
  s_id :: string
  s_key :: string
  s_name :: string
  s_type :: string
  s_status :: string
  s_links :: Links

record ResultLinks =
  rl_next :: "string option"
  rl_prev :: "string option"
  rl_base :: "string option"
  rl_context :: "string option"
  rl_self :: "string option"

record 'a PaginatedResult =
  r_results :: "'a list"
  r_start :: int
  r_limit :: int
  r_size :: int
  r_links :: ResultLinks

record SearchResult =
  sr_content :: "ConfluencePage list"
  sr_start :: int
  sr_limit :: int
  sr_size :: int
  sr_links :: ResultLinks

record CreatePageRequest =
  c_spaceId :: string
  c_status :: string
  c_title :: string
  c_body :: BodyValue
  c_parentId :: "string option"

record UpdatePageRequest =
  u_id :: string
  u_status :: string
  u_title :: string
  u_type :: string
  u_version_number :: int
  u_body_storage :: BodyValue

record MovePageRequest =
  m_version_number :: int
  m_title :: string
  m_type :: string
  m_space_key :: string
  m_ancestors :: "string list option"

section \<open>The remote system and the client state (confluence-client.ts)\<close>

text \<open>
  Every HTTP request the client can issue. \<open>GetSearch\<close> and \<open>GetContent\<close> go to the
  legacy API through the global HTTP client; the others go to the v2 API through the
  client instance.
\<close>

datatype http_call =
    GetSearch string int int string
  | GetContent string string
  | PostPage CreatePageRequest
  | PutPageUpdate string UpdatePageRequest
  | PutPageMove string MovePageRequest
  | DeletePage string
  | GetSpaces int "string option"
  | GetSpace string
  | GetPages string int int
  | GetChildren string int int


datatype upstream_error = UpstreamError string "int option"

datatype ErrorCode = MethodNotFound | InternalError

datatype error =
    Error string
  | Upstream upstream_error
  | TypeError string
  | McpError ErrorCode string

text \<open>
  The remote system answers a request given the requests issued before it, so it may
  change its answers over time. \<open>latency\<close> is the time a request takes;
  \<open>cursorOf\<close> is \<^verbatim>\<open>new URL(next).searchParams.get('cursor')\<close>, with \<open>None\<close> when the
  URL constructor throws and \<open>Some None\<close> when the parameter is absent.
\<close>

record Remote =
  pageResponse :: "http_call list \<Rightarrow> http_call \<Rightarrow> upstream_error + ConfluencePage"
  pagesResponse ::
    "http_call list \<Rightarrow> http_call \<Rightarrow> upstream_error + ConfluencePage PaginatedResult"
  spaceResponse :: "http_call list \<Rightarrow> http_call \<Rightarrow> upstream_error + ConfluenceSpace"
  spacesResponse ::
    "http_call list \<Rightarrow> http_call \<Rightarrow> upstream_error + ConfluenceSpace PaginatedResult"
  deleteResponse :: "http_call list \<Rightarrow> http_call \<Rightarrow> upstream_error + unit"
  latency :: "http_call list \<Rightarrow> http_call \<Rightarrow> nat"
  cursorOf :: "string \<Rightarrow> string option option"

text \<open>
  The client's mutable state: the two cache maps (association lists in insertion order,
  as a JavaScript \<^verbatim>\<open>Map\<close> keeps them), the requests issued so far, the clock
  \<^verbatim>\<open>Date.now()\<close> reads, and the lines written with \<^verbatim>\<open>console.warn\<close>.

  The interceptors of the client instance write each v2 request and response to the
  audit log (modelled above on its own) and, in debug mode, to \<^verbatim>\<open>console.log\<close> and
  \<^verbatim>\<open>console.error\<close>; they never change a request or its outcome, and the state below
  does not record what they write. A default parameter value (\<^verbatim>\<open>limit = 25\<close>) stands in
  for an absent argument only; the dispatcher passes these arguments always, so the
  operations take them as given.
\<close>

record Client =
  spaceCache :: "(string \<times> ConfluenceSpace) list"
  spaceCacheExpiry :: "(string \<times> nat) list"
  calls :: "http_call list"
  clock :: nat
  warnings :: "string list"

definition CACHE_TTL :: nat where
  "CACHE_TTL = 60 * 60 * 1000"

definition newClient :: "nat \<Rightarrow> Client" where
  "newClient now = \<lparr>spaceCache = [], spaceCacheExpiry = [], calls = [], clock = now, warnings = []\<rparr>"

text \<open>Issuing a request records it and lets its latency pass.\<close>

definition send :: "Remote \<Rightarrow> http_call \<Rightarrow> Client \<Rightarrow> Client" where
  "send R c s = s\<lparr>calls := calls s @ [c], clock := clock s + latency R (calls s) c\<rparr>"

text \<open>Truthiness of an optional string argument (\<^verbatim>\<open>if (query)\<close>).\<close>

definition given :: "string option \<Rightarrow> bool" where
  "given x = (case x of None \<Rightarrow> False | Some v \<Rightarrow> v \<noteq> [])"

definition bodyFormatField :: "string option \<Rightarrow> string" where
  "bodyFormatField bodyFormat = (if bodyFormat = Some ''view'' then ''body.view'' else ''body.storage'')"

definition accessDenied :: "string \<Rightarrow> error" where
  "accessDenied spaceKey = Error (''Access denied to space: '' @ spaceKey)"

definition unableToDetermine :: error where
  "unableToDetermine = Error ''Unable to determine page space for access validation''"

text \<open>\<^verbatim>\<open>!page.space || !page.space.key\<close> fails exactly when this is \<open>Some\<close>.\<close>

definition pageSpaceKey :: "ConfluencePage \<Rightarrow> string option" where
  "pageSpaceKey page =
     (case p_space page of None \<Rightarrow> None
      | Some sp \<Rightarrow> if ps_key sp = [] then None else Some (ps_key sp))"

definition textCondition :: "string \<Rightarrow> string" where
  \<open>textCondition query = ''text ~ "'' @ query @ ''"''\<close>

definition titleCondition :: "string \<Rightarrow> string" where
  \<open>titleCondition title = ''title ~ "'' @ title @ ''"''\<close>

definition spaceCondition :: "string \<Rightarrow> string" where
  \<open>spaceCondition spaceKey = ''space = "'' @ spaceKey @ ''"''\<close>

definition searchContent ::
  "Remote \<Rightarrow> ConfluenceConfig \<Rightarrow> string option \<Rightarrow> string option \<Rightarrow> int \<Rightarrow> string option \<Rightarrow> int
     \<Rightarrow> string option \<Rightarrow> Client \<Rightarrow> (error + SearchResult) \<times> Client" where
  "searchContent R cfg query spaceKey limit title start bodyFormat s =
     (let conditions = (if given query then [textCondition (the query)] else [])
                     @ (if given title then [titleCondition (the title)] else []);
          searchConditions = (if length conditions = 0 then [''type = page''] else conditions);
          searchQuery = joinWith '' AND '' searchConditions;
          expandParam = ''version,space''
                     @ (if given bodyFormat then '','' @ bodyFormatField bodyFormat else []);
          run = (\<lambda>cql.
            let call = GetSearch cql limit start expandParam in
            case pagesResponse R (calls s) call of
              Inl e \<Rightarrow> (Inl (Upstream e), send R call s)
            | Inr data \<Rightarrow>
                (Inr \<lparr>sr_content = r_results data, sr_start = r_start data,
                      sr_limit = r_limit data, sr_size = r_size data,
                      sr_links = r_links data\<rparr>, send R call s))
      in if given spaceKey then
           if \<not> validateSpaceAccess (the spaceKey) (allowedSpaces cfg)
           then (Inl (accessDenied (the spaceKey)), s)
           else run (spaceCondition (the spaceKey) @ '' AND '' @ searchQuery)
         else
           run (''('' @ joinWith '' OR '' (map spaceCondition (allowedSpaces cfg)) @ '') AND ''
                @ searchQuery))"

definition getPage ::
  "Remote \<Rightarrow> ConfluenceConfig \<Rightarrow> string \<Rightarrow> string option \<Rightarrow> Client
     \<Rightarrow> (error + ConfluencePage) \<times> Client" where
  "getPage R cfg pageId bodyFormat s =
     (let expandParam = ''space,version''
                     @ (if given bodyFormat then '','' @ bodyFormatField bodyFormat else []);
          call = GetContent pageId expandParam
      in case pageResponse R (calls s) call of
           Inl e \<Rightarrow> (Inl (Upstream e), send R call s)
         | Inr data \<Rightarrow>
             (case pageSpaceKey data of
                None \<Rightarrow> (Inl unableToDetermine, send R call s)
              | Some k \<Rightarrow>
                  if \<not> validateSpaceAccess k (allowedSpaces cfg)
                  then (Inl (accessDenied k), send R call s)
                  else (Inr data, send R call s)))"

definition isSpaceCacheValid :: "Client \<Rightarrow> string \<Rightarrow> bool" where
  "isSpaceCacheValid s spaceKey =
     (case map_of (spaceCacheExpiry s) spaceKey of
        None \<Rightarrow> False
      | Some expiry \<Rightarrow> clock s < expiry)"

text \<open>\<^verbatim>\<open>Map.set\<close> overwrites an existing key in place and appends a new one.\<close>

definition cacheSpace :: "ConfluenceSpace \<Rightarrow> Client \<Rightarrow> Client" where
  "cacheSpace space s =
     (let now = clock s
      in s\<lparr>spaceCache := AList.update (s_key space) space (spaceCache s),
            spaceCacheExpiry := AList.update (s_key space) (now + CACHE_TTL) (spaceCacheExpiry s)\<rparr>)"

definition listSpaces ::
  "Remote \<Rightarrow> ConfluenceConfig \<Rightarrow> int \<Rightarrow> string option \<Rightarrow> Client
     \<Rightarrow> (error + ConfluenceSpace PaginatedResult) \<times> Client" where
  "listSpaces R cfg limit cursor s =
     (let call = GetSpaces limit (if given cursor then cursor else None)
      in case spacesResponse R (calls s) call of
           Inl e \<Rightarrow> (Inl (Upstream e), send R call s)
         | Inr data \<Rightarrow>
             (let filteredResults =
                    filter (\<lambda>space. validateSpaceAccess (s_key space) (allowedSpaces cfg))
                      (r_results data)
              in (Inr (data\<lparr>r_results := filteredResults,
                             r_size := int (length filteredResults)\<rparr>),
                  fold cacheSpace filteredResults (send R call s))))"

definition getSpaceById ::
  "Remote \<Rightarrow> ConfluenceConfig \<Rightarrow> string \<Rightarrow> Client \<Rightarrow> (error + ConfluenceSpace) \<times> Client" where
  "getSpaceById R cfg spaceId s =
     (case find (\<lambda>(key, space). s_id space = spaceId \<and> isSpaceCacheValid s key) (spaceCache s) of
        Some (key, space) \<Rightarrow> (Inr space, s)
      | None \<Rightarrow>
          (let call = GetSpace spaceId
           in case spaceResponse R (calls s) call of
                Inl e \<Rightarrow> (Inl (Upstream e), send R call s)
              | Inr data \<Rightarrow>
                  if \<not> validateSpaceAccess (s_key data) (allowedSpaces cfg)
                  then (Inl (accessDenied (s_key data)), send R call s)
                  else (Inr data, cacheSpace data (send R call s))))"

definition spaceNotFound :: "string \<Rightarrow> error" where
  "spaceNotFound spaceKey = Error (''Space not found: '' @ spaceKey)"

text \<open>
  The \<^verbatim>\<open>do ... while (cursor)\<close> loop of \<^verbatim>\<open>getSpaceByKey\<close>. The remote system decides
  how many pages there are, so the loop carries fuel: \<open>None\<close> is a loop that has not
  returned when the fuel is used up.
\<close>

fun findSpace ::
  "nat \<Rightarrow> Remote \<Rightarrow> ConfluenceConfig \<Rightarrow> string \<Rightarrow> string option \<Rightarrow> Client
     \<Rightarrow> (error + ConfluenceSpace) option \<times> Client" where
  "findSpace 0 R cfg spaceKey cursor s = (None, s)"
| "findSpace (Suc fuel) R cfg spaceKey cursor s =
     (case listSpaces R cfg 100 cursor s of
        (Inl e, s1) \<Rightarrow> (Some (Inl e), s1)
      | (Inr spaces, s1) \<Rightarrow>
          (case find (\<lambda>sp. s_key sp = spaceKey) (r_results spaces) of
             Some space \<Rightarrow> (Some (Inr space), s1)
           | None \<Rightarrow>
               (if given (rl_next (r_links spaces)) then
                  (case cursorOf R (the (rl_next (r_links spaces))) of
                     None \<Rightarrow> (Some (Inl (TypeError ''Invalid URL'')), s1)
                   | Some next \<Rightarrow>
                       if given next then findSpace fuel R cfg spaceKey next s1
                       else (Some (Inl (spaceNotFound spaceKey)), s1))
                else (Some (Inl (spaceNotFound spaceKey)), s1))))"

definition getSpaceByKey ::
  "nat \<Rightarrow> Remote \<Rightarrow> ConfluenceConfig \<Rightarrow> string \<Rightarrow> Client
     \<Rightarrow> (error + ConfluenceSpace) option \<times> Client" where
  "getSpaceByKey fuel R cfg spaceKey s =
     (if \<not> validateSpaceAccess spaceKey (allowedSpaces cfg)
      then (Some (Inl (accessDenied spaceKey)), s)
      else if isSpaceCacheValid s spaceKey \<and> map_of (spaceCache s) spaceKey \<noteq> None
      then (Some (Inr (the (map_of (spaceCache s) spaceKey))), s)
      else findSpace fuel R cfg spaceKey None s)"

definition createPage ::
  "nat \<Rightarrow> Remote \<Rightarrow> ConfluenceConfig \<Rightarrow> string \<Rightarrow> string \<Rightarrow> string \<Rightarrow> string option \<Rightarrow> Client
     \<Rightarrow> (error + ConfluencePage) option \<times> Client" where
  "createPage fuel R cfg spaceKey title content parentId s =
     (if \<not> validateSpaceAccess spaceKey (allowedSpaces cfg)
      then (Some (Inl (accessDenied spaceKey)), s)
      else
        (case getSpaceByKey fuel R cfg spaceKey s of
           (None, s1) \<Rightarrow> (None, s1)
         | (Some (Inl e), s1) \<Rightarrow> (Some (Inl e), s1)
         | (Some (Inr space), s1) \<Rightarrow>
             if s_id space = []
             then (Some (Inl (Error (''Unable to get space ID for space: '' @ spaceKey))), s1)
             else
               (let pageData = \<lparr>c_spaceId = s_id space, c_status = ''current'', c_title = title,
                                 c_body = \<lparr>bv_value = content, bv_representation = ''storage''\<rparr>,
                                 c_parentId = (if given parentId then parentId else None)\<rparr>;
                    call = PostPage pageData
                in case pageResponse R (calls s1) call of
                     Inl e \<Rightarrow> (Some (Inl (Upstream e)), send R call s1)
                   | Inr data \<Rightarrow> (Some (Inr data), send R call s1))))"

definition updatePage ::
  "Remote \<Rightarrow> ConfluenceConfig \<Rightarrow> string \<Rightarrow> string \<Rightarrow> string \<Rightarrow> int \<Rightarrow> Client
     \<Rightarrow> (error + ConfluencePage) \<times> Client" where
  "updatePage R cfg pageId title content version s =
     (case getPage R cfg pageId None s of
        (Inl e, s1) \<Rightarrow> (Inl e, s1)
      | (Inr currentPage, s1) \<Rightarrow>
          (case pageSpaceKey currentPage of
             None \<Rightarrow> (Inl unableToDetermine, s1)
           | Some k \<Rightarrow>
               if \<not> validateSpaceAccess k (allowedSpaces cfg)
               then (Inl (accessDenied k), s1)
               else
                 (let updateData = \<lparr>u_id = pageId, u_status = ''current'', u_title = title,
                                     u_type = ''page'', u_version_number = version,
                                     u_body_storage =
                                       \<lparr>bv_value = content, bv_representation = ''storage''\<rparr>\<rparr>;
                      call = PutPageUpdate pageId updateData
                  in case pageResponse R (calls s1) call of
                       Inl e \<Rightarrow> (Inl (Upstream e), send R call s1)
                     | Inr data \<Rightarrow> (Inr data, send R call s1))))"

definition deletePage ::
  "Remote \<Rightarrow> ConfluenceConfig \<Rightarrow> string \<Rightarrow> Client \<Rightarrow> (error + unit) \<times> Client" where
  "deletePage R cfg pageId s =
     (case getPage R cfg pageId None s of
        (Inl e, s1) \<Rightarrow> (Inl e, s1)
      | (Inr currentPage, s1) \<Rightarrow>
          (case pageSpaceKey currentPage of
             None \<Rightarrow> (Inl unableToDetermine, s1)
           | Some k \<Rightarrow>
               if \<not> validateSpaceAccess k (allowedSpaces cfg)
               then (Inl (accessDenied k), s1)
               else
                 (let call = DeletePage pageId
                  in case deleteResponse R (calls s1) call of
                       Inl e \<Rightarrow> (Inl (Upstream e), send R call s1)
                     | Inr u \<Rightarrow> (Inr (), send R call s1))))"

definition movePage ::
  "Remote \<Rightarrow> ConfluenceConfig \<Rightarrow> string \<Rightarrow> string \<Rightarrow> string option \<Rightarrow> Client
     \<Rightarrow> (error + ConfluencePage) \<times> Client" where
  "movePage R cfg pageId targetSpaceKey parentId s =
     (case getPage R cfg pageId None s of
        (Inl e, s1) \<Rightarrow> (Inl e, s1)
      | (Inr currentPage, s1) \<Rightarrow>
          (case pageSpaceKey currentPage of
             None \<Rightarrow> (Inl unableToDetermine, s1)
           | Some k \<Rightarrow>
               if \<not> validateSpaceAccess k (allowedSpaces cfg)
               then (Inl (Error (''Access denied to source space: '' @ k)), s1)
               else if \<not> validateSpaceAccess targetSpaceKey (allowedSpaces cfg)
               then (Inl (Error (''Access denied to target space: '' @ targetSpaceKey)), s1)
               else
                 (let moveData = \<lparr>m_version_number = v_number (p_version currentPage),
                                   m_title = p_title currentPage, m_type = ''page'',
                                   m_space_key = targetSpaceKey,
                                   m_ancestors = (if given parentId then Some [the parentId] else None)\<rparr>;
                      call = PutPageMove pageId moveData
                  in case pageResponse R (calls s1) call of
                       Inl e \<Rightarrow> (Inl (Upstream e), send R call s1)
                     | Inr data \<Rightarrow> (Inr data, send R call s1))))"

text \<open>
  Body enrichment of one listed page: a legacy-API fetch inside \<^verbatim>\<open>try ... catch\<close>. The
  fan-out of \<^verbatim>\<open>Promise.all\<close> issues its requests in list order; the model runs them in
  that order.
\<close>

text \<open>The text of the \<^verbatim>\<open>console.warn\<close> line; the error object printed after it is left out.\<close>

definition bodyWarning :: "ConfluencePage \<Rightarrow> string" where
  "bodyWarning page = ''Failed to retrieve body content for page '' @ p_id page @ '':''"

definition enrichPage ::
  "Remote \<Rightarrow> ConfluenceConfig \<Rightarrow> string \<Rightarrow> ConfluencePage \<Rightarrow> Client \<Rightarrow> ConfluencePage \<times> Client" where
  "enrichPage R cfg format page s =
     (let call = GetContent (p_id page) (format @ '',version,space'')
      in case pageResponse R (calls s) call of
           Inr v1 \<Rightarrow>
             (if p_body v1 \<noteq> None then page\<lparr>p_body := p_body v1\<rparr> else page, send R call s)
         | Inl e \<Rightarrow>
             (page,
              if debug cfg
              then (send R call s)\<lparr>warnings := warnings (send R call s) @ [bodyWarning page]\<rparr>
              else send R call s))"

fun enrichAll ::
  "Remote \<Rightarrow> ConfluenceConfig \<Rightarrow> string \<Rightarrow> ConfluencePage list \<Rightarrow> Client
     \<Rightarrow> ConfluencePage list \<times> Client" where
  "enrichAll R cfg format [] s = ([], s)"
| "enrichAll R cfg format (page # pages) s =
     (case enrichPage R cfg format page s of
        (page', s1) \<Rightarrow>
          (case enrichAll R cfg format pages s1 of
             (pages', s2) \<Rightarrow> (page' # pages', s2)))"

text \<open>The part \<^verbatim>\<open>getSpaceContent\<close> and \<^verbatim>\<open>getPageChildren\<close> share after their listing.\<close>

definition enrichListing ::
  "Remote \<Rightarrow> ConfluenceConfig \<Rightarrow> string option \<Rightarrow> ConfluencePage PaginatedResult \<Rightarrow> Client
     \<Rightarrow> ConfluencePage PaginatedResult \<times> Client" where
  "enrichListing R cfg bodyFormat data s =
     (if given bodyFormat \<and> length (r_results data) > 0
      then (case enrichAll R cfg (bodyFormatField bodyFormat) (r_results data) s of
              (enhancedResults, s1) \<Rightarrow> (data\<lparr>r_results := enhancedResults\<rparr>, s1))
      else (data, s))"

definition getSpaceContent ::
  "Remote \<Rightarrow> ConfluenceConfig \<Rightarrow> string \<Rightarrow> int \<Rightarrow> int \<Rightarrow> string option \<Rightarrow> Client
     \<Rightarrow> (error + ConfluencePage PaginatedResult) \<times> Client" where
  "getSpaceContent R cfg spaceKey limit start bodyFormat s =
     (if \<not> validateSpaceAccess spaceKey (allowedSpaces cfg)
      then (Inl (accessDenied spaceKey), s)
      else
        (let call = GetPages spaceKey limit start
         in case pagesResponse R (calls s) call of
              Inl e \<Rightarrow> (Inl (Upstream e), send R call s)
            | Inr data \<Rightarrow>
                (case enrichListing R cfg bodyFormat data (send R call s) of
                   (data', s1) \<Rightarrow> (Inr data', s1))))"

definition getPageChildren ::
  "Remote \<Rightarrow> ConfluenceConfig \<Rightarrow> string \<Rightarrow> int \<Rightarrow> int \<Rightarrow> string option \<Rightarrow> Client
     \<Rightarrow> (error + ConfluencePage PaginatedResult) \<times> Client" where
  "getPageChildren R cfg pageId limit start bodyFormat s =
     (case getPage R cfg pageId None s of
        (Inl e, s1) \<Rightarrow> (Inl e, s1)
      | (Inr parentPage, s1) \<Rightarrow>
          (case pageSpaceKey parentPage of
             None \<Rightarrow> (Inl unableToDetermine, s1)
           | Some k \<Rightarrow>
               if \<not> validateSpaceAccess k (allowedSpaces cfg)
               then (Inl (accessDenied k), s1)
               else
                 (let call = GetChildren pageId limit start
                  in case pagesResponse R (calls s1) call of
                       Inl e \<Rightarrow> (Inl (Upstream e), send R call s1)
                     | Inr data \<Rightarrow>
                         (case enrichListing R cfg bodyFormat data (send R call s1) of
                            (data', s2) \<Rightarrow> (Inr data', s2)))))"

section \<open>Tool dispatcher (index.ts)\<close>

text \<open>
  The handler that goes with this client (it passes \<^verbatim>\<open>start\<close>, \<^verbatim>\<open>bodyFormat\<close> and
  \<^verbatim>\<open>cursor\<close> on); the earlier handler validates a search and wraps errors in the same
  way. A tool call carries its arguments at the types the handler casts them to; a name
  outside the \<^verbatim>\<open>switch\<close> is \<open>unknown_tool\<close>. The handler serialises a result with
  \<^verbatim>\<open>JSON.stringify\<close>; the model returns the value.
\<close>

datatype ToolCall =
    search_confluence "string option" "string option" "string option" "int option" "int option"
      "string option"
  | get_page string "string option"
  | create_page string string string "string option"
  | update_page string string string int
  | move_page string string "string option"
  | list_spaces "int option" "string option"
  | get_space_by_id string
  | get_space_by_key string
  | get_space_content string "int option" "int option" "string option"
  | get_page_children string "int option" "int option" "string option"
  | unknown_tool string

datatype ToolResult =
    SearchR SearchResult
  | PageR ConfluencePage
  | SpaceR ConfluenceSpace
  | SpacesR "ConfluenceSpace PaginatedResult"
  | PagesR "ConfluencePage PaginatedResult"

fun toolName :: "ToolCall \<Rightarrow> string" where
  "toolName (search_confluence _ _ _ _ _ _) = ''search_confluence''"
| "toolName (get_page _ _) = ''get_page''"
| "toolName (create_page _ _ _ _) = ''create_page''"
| "toolName (update_page _ _ _ _) = ''update_page''"
| "toolName (move_page _ _ _) = ''move_page''"
| "toolName (list_spaces _ _) = ''list_spaces''"
| "toolName (get_space_by_id _) = ''get_space_by_id''"
| "toolName (get_space_by_key _) = ''get_space_by_key''"
| "toolName (get_space_content _ _ _ _) = ''get_space_content''"
| "toolName (get_page_children _ _ _ _) = ''get_page_children''"
| "toolName (unknown_tool name) = name"

text \<open>A destructuring default (\<^verbatim>\<open>limit = 25\<close>) applies when the argument is absent.\<close>

definition orDefault :: "int option \<Rightarrow> int \<Rightarrow> int" where
  "orDefault x d = (case x of None \<Rightarrow> d | Some v \<Rightarrow> v)"

text \<open>
  \<^verbatim>\<open>error.message\<close>. The message of an \<^verbatim>\<open>McpError\<close> is computed by the protocol
  library from its code and text; that function is the parameter \<open>sdkMessage\<close>.
\<close>

fun errorMessage :: "(ErrorCode \<Rightarrow> string \<Rightarrow> string) \<Rightarrow> error \<Rightarrow> string" where
  "errorMessage sdkMessage (Error m) = m"
| "errorMessage sdkMessage (Upstream (UpstreamError m status)) = m"
| "errorMessage sdkMessage (TypeError m) = m"
| "errorMessage sdkMessage (McpError code m) = sdkMessage code m"

definition missingSearchArgument :: string where
  \<open>missingSearchArgument = ''At least one of "query" or "title" must be provided''\<close>

text \<open>The \<^verbatim>\<open>switch\<close> inside the handler's \<^verbatim>\<open>try\<close> block.\<close>

fun dispatch ::
  "nat \<Rightarrow> Remote \<Rightarrow> ConfluenceConfig \<Rightarrow> ToolCall \<Rightarrow> Client \<Rightarrow> (error + ToolResult) option \<times> Client" where
  "dispatch fuel R cfg (search_confluence query title spaceKey limit start bodyFormat) s =
     (if \<not> given query \<and> \<not> given title
      then (Some (Inl (Error missingSearchArgument)), s)
      else (case searchContent R cfg query spaceKey (orDefault limit 25) title (orDefault start 0)
                   bodyFormat s of
              (r, s1) \<Rightarrow> (Some (map_sum id SearchR r), s1)))"
| "dispatch fuel R cfg (get_page pageId bodyFormat) s =
     (case getPage R cfg pageId bodyFormat s of (r, s1) \<Rightarrow> (Some (map_sum id PageR r), s1))"
| "dispatch fuel R cfg (create_page spaceKey title content parentId) s =
     (case createPage fuel R cfg spaceKey title content parentId s of
        (r, s1) \<Rightarrow> (map_option (map_sum id PageR) r, s1))"
| "dispatch fuel R cfg (update_page pageId title content version) s =
     (case updatePage R cfg pageId title content version s of
        (r, s1) \<Rightarrow> (Some (map_sum id PageR r), s1))"
| "dispatch fuel R cfg (move_page pageId targetSpaceKey parentId) s =
     (case movePage R cfg pageId targetSpaceKey parentId s of
        (r, s1) \<Rightarrow> (Some (map_sum id PageR r), s1))"
| "dispatch fuel R cfg (list_spaces limit cursor) s =
     (case listSpaces R cfg (orDefault limit 50) cursor s of
        (r, s1) \<Rightarrow> (Some (map_sum id SpacesR r), s1))"
| "dispatch fuel R cfg (get_space_by_id spaceId) s =
     (case getSpaceById R cfg spaceId s of (r, s1) \<Rightarrow> (Some (map_sum id SpaceR r), s1))"
| "dispatch fuel R cfg (get_space_by_key spaceKey) s =
     (case getSpaceByKey fuel R cfg spaceKey s of
        (r, s1) \<Rightarrow> (map_option (map_sum id SpaceR) r, s1))"
| "dispatch fuel R cfg (get_space_content spaceKey limit start bodyFormat) s =
     (case getSpaceContent R cfg spaceKey (orDefault limit 25) (orDefault start 0) bodyFormat s of
        (r, s1) \<Rightarrow> (Some (map_sum id PagesR r), s1))"
| "dispatch fuel R cfg (get_page_children pageId limit start bodyFormat) s =
     (case getPageChildren R cfg pageId (orDefault limit 25) (orDefault start 0) bodyFormat s of
        (r, s1) \<Rightarrow> (Some (map_sum id PagesR r), s1))"
| "dispatch fuel R cfg (unknown_tool name) s =
     (Some (Inl (McpError MethodNotFound (''Unknown tool: '' @ name))), s)"

text \<open>The handler: every error of the \<^verbatim>\<open>try\<close> block is rethrown wrapped.\<close>

definition callTool ::
  "(ErrorCode \<Rightarrow> string \<Rightarrow> string) \<Rightarrow> nat \<Rightarrow> Remote \<Rightarrow> ConfluenceConfig \<Rightarrow> ToolCall \<Rightarrow> Client
     \<Rightarrow> (error + ToolResult) option \<times> Client" where
  "callTool sdkMessage fuel R cfg call s =
     (case dispatch fuel R cfg call s of
        (None, s1) \<Rightarrow> (None, s1)
      | (Some (Inr result), s1) \<Rightarrow> (Some (Inr result), s1)
      | (Some (Inl e), s1) \<Rightarrow>
          (Some (Inl (McpError InternalError
             (''Error executing '' @ toolName call @ '': '' @ errorMessage sdkMessage e))), s1))"

section \<open>Sequences of operations and the cache invariant\<close>

text \<open>
  The state of the space cache that the claims speak of: every entry is filed under an
  allowed key, and under the key of the space it holds.
\<close>

definition cacheAllowed :: "ConfluenceConfig \<Rightarrow> Client \<Rightarrow> bool" where
  "cacheAllowed cfg s =
     list_all (\<lambda>(key, space). key \<in> set (allowedSpaces cfg) \<and> s_key space = key) (spaceCache s)"

text \<open>
  The public methods of the client as operations, and \<open>Wait\<close> for time passing between
  two of them; \<open>perform\<close> keeps the state an operation leaves.
\<close>

datatype Operation =
    SearchContent "string option" "string option" int "string option" int "string option"
  | GetPage string "string option"
  | CreatePage string string string "string option"
  | UpdatePage string string string int
  | DeletePageOf string
  | ListSpaces int "string option"
  | GetSpaceById string
  | GetSpaceByKey string
  | GetSpaceContent string int int "string option"
  | MovePage string string "string option"
  | GetPageChildren string int int "string option"
  | Wait nat

fun perform :: "nat \<Rightarrow> Remote \<Rightarrow> ConfluenceConfig \<Rightarrow> Operation \<Rightarrow> Client \<Rightarrow> Client" where
  "perform fuel R cfg (SearchContent query spaceKey limit title start bodyFormat) s =
     snd (searchContent R cfg query spaceKey limit title start bodyFormat s)"
| "perform fuel R cfg (GetPage pageId bodyFormat) s = snd (getPage R cfg pageId bodyFormat s)"
| "perform fuel R cfg (CreatePage spaceKey title content parentId) s =
     snd (createPage fuel R cfg spaceKey title content parentId s)"
| "perform fuel R cfg (UpdatePage pageId title content version) s =
     snd (updatePage R cfg pageId title content version s)"
| "perform fuel R cfg (DeletePageOf pageId) s = snd (deletePage R cfg pageId s)"
| "perform fuel R cfg (ListSpaces limit cursor) s = snd (listSpaces R cfg limit cursor s)"
| "perform fuel R cfg (GetSpaceById spaceId) s = snd (getSpaceById R cfg spaceId s)"
| "perform fuel R cfg (GetSpaceByKey spaceKey) s = snd (getSpaceByKey fuel R cfg spaceKey s)"
| "perform fuel R cfg (GetSpaceContent spaceKey limit start bodyFormat) s =
     snd (getSpaceContent R cfg spaceKey limit start bodyFormat s)"
| "perform fuel R cfg (MovePage pageId targetSpaceKey parentId) s =
     snd (movePage R cfg pageId targetSpaceKey parentId s)"
| "perform fuel R cfg (GetPageChildren pageId limit start bodyFormat) s =
     snd (getPageChildren R cfg pageId limit start bodyFormat s)"
| "perform fuel R cfg (Wait ms) s = s\<lparr>clock := clock s + ms\<rparr>"

section \<open>Sample worlds\<close>

text \<open>Concrete spaces, pages, remote systems and configurations for the closed instances.\<close>

definition mkSpace :: "string \<Rightarrow> string \<Rightarrow> ConfluenceSpace" where
  "mkSpace ident k =
     \<lparr>s_id = ident, s_key = k, s_name = k, s_type = ''global'', s_status = ''current'',
      s_links = \<lparr>l_webui = [], l_self = []\<rparr>\<rparr>"

definition mkPage :: "string \<Rightarrow> string \<Rightarrow> int \<Rightarrow> ConfluencePage" where
  "mkPage ident k n =
     \<lparr>p_id = ident, p_type = ''page'', p_status = ''current'', p_title = ''Notes'',
      p_space = Some \<lparr>ps_key = k, ps_name = k\<rparr>, p_body = None,
      p_version = \<lparr>v_number = n, v_when = [], v_by_displayName = [], v_by_email = []\<rparr>,
      p_links = \<lparr>l_webui = [], l_self = []\<rparr>\<rparr>"

definition noLinks :: ResultLinks where
  "noLinks = \<lparr>rl_next = None, rl_prev = None, rl_base = None, rl_context = None, rl_self = None\<rparr>"

definition notFound :: upstream_error where
  "notFound = UpstreamError ''Request failed with status code 404'' (Some 404)"

definition conflict :: upstream_error where
  "conflict = UpstreamError ''Request failed with status code 409'' (Some 409)"

definition deadRemote :: Remote where
  "deadRemote =
     \<lparr>pageResponse = (\<lambda>h c. Inl notFound), pagesResponse = (\<lambda>h c. Inl notFound),
      spaceResponse = (\<lambda>h c. Inl notFound), spacesResponse = (\<lambda>h c. Inl notFound),
      deleteResponse = (\<lambda>h c. Inl notFound), latency = (\<lambda>h c. 0),
      cursorOf = (\<lambda>u. Some None)\<rparr>"

definition devOnly :: ConfluenceConfig where
  "devOnly = \<lparr>baseUrl = ''https://wiki.example'', username = ''ann'', apiToken = ''s3cr3t'',
              allowedSpaces = [''DEV''], debug = False\<rparr>"

definition threeSpaces :: Remote where
  "threeSpaces = deadRemote\<lparr>spacesResponse := (\<lambda>h c.
     Inr \<lparr>r_results = [mkSpace ''1'' ''DEV'', mkSpace ''2'' ''SECRET'', mkSpace ''3'' ''dev''],
          r_start = 0, r_limit = 50, r_size = 3, r_links = noLinks\<rparr>)\<rparr>"

definition conflictRemote :: Remote where
  "conflictRemote = deadRemote\<lparr>pageResponse := (\<lambda>h c.
     case c of GetContent pageId expand \<Rightarrow> Inr (mkPage pageId ''DEV'' 7) | _ \<Rightarrow> Inl conflict)\<rparr>"

definition updateRequest :: "string \<Rightarrow> string \<Rightarrow> string \<Rightarrow> int \<Rightarrow> UpdatePageRequest" where
  "updateRequest pageId title content version =
     \<lparr>u_id = pageId, u_status = ''current'', u_title = title, u_type = ''page'',
      u_version_number = version,
      u_body_storage = \<lparr>bv_value = content, bv_representation = ''storage''\<rparr>\<rparr>"




definition devCached :: Client where
  "devCached =
     \<lparr>spaceCache = [(''DEV'', mkSpace ''1'' ''DEV'')], spaceCacheExpiry = [(''DEV'', CACHE_TTL)],
      calls = [GetSpaces 100 None], clock = 0, warnings = []\<rparr>"

definition withSecret :: Remote where
  "withSecret = threeSpaces\<lparr>spaceResponse := (\<lambda>h c. Inr (mkSpace ''2'' ''SECRET''))\<rparr>"

definition brokenBodies :: Remote where
  "brokenBodies = deadRemote\<lparr>pagesResponse := (\<lambda>h c.
     Inr \<lparr>r_results = [mkPage ''7'' ''DEV'' 1], r_start = 0, r_limit = 25, r_size = 1,
          r_links = noLinks\<rparr>)\<rparr>"

definition devDebug :: ConfluenceConfig where
  "devDebug = devOnly\<lparr>debug := True\<rparr>"

definition oneListed :: "ConfluencePage PaginatedResult" where
  "oneListed = \<lparr>r_results = [mkPage ''7'' ''DEV'' 1], r_start = 0, r_limit = 25, r_size = 1,
                r_links = noLinks\<rparr>"

section \<open>Facts about the logger\<close>

subsection \<open>Splitting and joining lines\<close>

lemma split_nonempty: "split s \<noteq> []"
  by (induction s) (auto split: list.splits)

lemma split_no_newline: "l \<in> set (split s) \<Longrightarrow> newline \<notin> set l"
  by (induction s arbitrary: l) (auto split: list.splits if_splits)

lemma join_Cons: "ys \<noteq> [] \<Longrightarrow> join (x # ys) = x @ newline # join ys"
  by (cases ys) auto

lemma join_split: "join (split s) = s"
proof (induction s)
  case Nil
  show ?case by simp
next
  case (Cons c cs)
  show ?case
  proof (cases "c = newline")
    case True
    with Cons show ?thesis by (simp add: join_Cons split_nonempty)
  next
    case False
    obtain l ls where sp: "split cs = l # ls"
      using split_nonempty [of cs] by (cases "split cs") auto
    with Cons False show ?thesis by (cases ls) auto
  qed
qed

lemma split_append_line: "newline \<notin> set x \<Longrightarrow> split (x @ newline # s) = x # split s"
  by (induction x) auto

lemma split_line: "newline \<notin> set x \<Longrightarrow> split x = [x]"
  by (induction x) auto

lemma split_join: "xs \<noteq> [] \<Longrightarrow> \<forall>x \<in> set xs. newline \<notin> set x \<Longrightarrow> split (join xs) = xs"
proof (induction xs rule: join.induct)
  case 1
  then show ?case by simp
next
  case (2 x)
  then show ?case by (simp add: split_line)
next
  case (3 x y ys)
  then show ?case by (simp add: split_append_line)
qed

lemma slice_neg: "slice (- int k) xs = (if k = 0 then xs else drop (length xs - k) xs)"
  by (auto simp: slice_def Let_def max_def nat_diff_distrib')

lemma join_drop_suffix: "suffix (join (drop k xs)) (join xs)"
proof (induction xs arbitrary: k)
  case Nil
  show ?case by simp
next
  case (Cons x xs)
  show ?case
  proof (cases k)
    case 0
    then show ?thesis by simp
  next
    case (Suc j)
    have "suffix (join xs) (join (x # xs))"
      by (cases xs) (auto simp: suffix_def)
    with Cons [of j] Suc show ?thesis
      by (auto intro: suffix_order.trans)
  qed
qed

lemma trimmedContent_lines:
  "split (trimmedContent content) = slice (- int (keepLines (split content))) (split content)"
proof -
  let ?ls = "split content"
  let ?k = "keepLines ?ls"
  have ne: "slice (- int ?k) ?ls \<noteq> []"
    using split_nonempty [of content]
    by (cases "split content") (auto simp: slice_neg keepLines_def)
  have "\<forall>x \<in> set (slice (- int ?k) ?ls). newline \<notin> set x"
    by (auto simp: slice_neg dest: in_set_dropD split_no_newline)
  with ne show ?thesis
    by (simp add: trimmedContent_def Let_def split_join)
qed

lemma split_fileOf:
  "\<forall>e \<in> set entries. newline \<notin> set e \<Longrightarrow> split (fileOf entries) = entries @ [[]]"
  by (induction entries) (simp_all add: fileOf_def split_append_line)

lemma join_fileOf: "join (entries @ [[]]) = fileOf entries"
  by (induction entries) (simp_all add: fileOf_def join_Cons)

lemma trimmedContent_fileOf:
  assumes clean: "\<forall>e \<in> set entries. newline \<notin> set e" and ne: "entries \<noteq> []"
  shows "trimmedContent (fileOf entries)
    = fileOf (drop (length entries - (length entries - 1) div 2) entries)"
proof -
  let ?m = "length entries"
  from ne have m: "0 < ?m" by simp
  have half: "(?m + 1) div 2 = (?m - 1) div 2 + 1"
    using m by (cases ?m) simp_all
  have le: "?m - (?m - 1) div 2 \<le> ?m" by simp
  have nz: "Suc ?m div 2 \<noteq> 0"
    using half by simp
  have "trimmedContent (fileOf entries)
      = join (drop (?m + 1 - (?m + 1) div 2) (entries @ [[]]))"
    using nz by (simp add: trimmedContent_def Let_def split_fileOf [OF clean] slice_neg keepLines_def)
  also have "?m + 1 - (?m + 1) div 2 = ?m - (?m - 1) div 2"
    using m half by simp
  also have "drop (?m - (?m - 1) div 2) (entries @ [[]])
      = drop (?m - (?m - 1) div 2) entries @ [[]]"
    using le by simp
  finally show ?thesis by (simp add: join_fileOf)
qed

lemma writeLog_fileOf:
  "length (fileOf entries) \<le> maxSizeBytes L \<Longrightarrow>
   writeLog L entry (Some (fileOf entries)) = Some (fileOf (entries @ [entry]))"
  by (simp add: writeLog_def checkAndTrimLogFile_def appendFile_def fileOf_def)

text \<open>
  A file the logger itself wrote ends in a newline, so its last segment is the empty text
  after that newline: of two entries the trim keeps one segment, the empty one.
\<close>

lemma trim_of_two_entries: "trimmedContent (''r1'' @ [newline] @ ''r2'' @ [newline]) = []"
  by (simp add: trimmedContent_def keepLines_def slice_def newline_def)

subsection \<open>Redaction\<close>


declare removeSensitiveFields.simps(1,2) [simp del]

















section \<open>Facts about the client\<close>

lemma getPage_allowed:
  "pageResponse R (calls s) (GetContent pageId ''space,version'') = Inr cur \<Longrightarrow>
   pageSpaceKey cur = Some k \<Longrightarrow> k \<in> set (allowedSpaces cfg) \<Longrightarrow>
   getPage R cfg pageId None s = (Inr cur, send R (GetContent pageId ''space,version'') s)"
  by (simp add: getPage_def given_def validateSpaceAccess_def)



lemma calls_send: "calls (send R c s) = calls s @ [c]"
  by (simp add: send_def)

lemma cacheSpace_frame [simp]:
  "calls (cacheSpace x s) = calls s" "clock (cacheSpace x s) = clock s"
  "warnings (cacheSpace x s) = warnings s"
  by (simp_all add: cacheSpace_def Let_def)

lemma fold_cacheSpace_frame [simp]:
  "calls (fold cacheSpace xs s) = calls s" "clock (fold cacheSpace xs s) = clock s"
  "warnings (fold cacheSpace xs s) = warnings s"
  by (induction xs arbitrary: s) simp_all

lemma expiry_cacheSpace:
  "map_of (spaceCacheExpiry (cacheSpace x s)) k =
     (if s_key x = k then Some (clock s + CACHE_TTL) else map_of (spaceCacheExpiry s) k)"
  by (simp add: cacheSpace_def Let_def update_conv')

lemma cache_cacheSpace:
  "map_of (spaceCache (cacheSpace x s)) k =
     (if s_key x = k then Some x else map_of (spaceCache s) k)"
  by (simp add: cacheSpace_def Let_def update_conv')

lemma expiry_fold_cacheSpace:
  "map_of (spaceCacheExpiry (fold cacheSpace xs s)) k =
     (if k \<in> s_key ` set xs then Some (clock s + CACHE_TTL) else map_of (spaceCacheExpiry s) k)"
  by (induction xs arbitrary: s) (auto simp: expiry_cacheSpace)

lemma cache_fold_cacheSpace:
  "k \<in> s_key ` set xs \<Longrightarrow> \<exists>x. map_of (spaceCache (fold cacheSpace xs s)) k = Some x \<and> s_key x = k"
proof (induction xs arbitrary: s rule: rev_induct)
  case Nil
  then show ?case by simp
next
  case (snoc x xs)
  show ?case
  proof (cases "s_key x = k")
    case True
    then show ?thesis by (simp add: cache_cacheSpace)
  next
    case False
    with snoc.prems have "k \<in> s_key ` set xs" by auto
    from snoc.IH [OF this] False show ?thesis by (simp add: cache_cacheSpace)
  qed
qed

lemma listSpaces_Inr:
  "listSpaces R cfg limit cursor s = (Inr spaces, s1) \<Longrightarrow>
   s1 = fold cacheSpace (r_results spaces) (send R (GetSpaces limit (if given cursor then cursor else None)) s)"
  by (auto simp: listSpaces_def Let_def split: sum.splits)



lemma findSpace_found:
  "findSpace fuel R cfg k cursor s = (Some (Inr space), s1) \<Longrightarrow>
   s_key space = k \<and> map_of (spaceCacheExpiry s1) k = Some (clock s1 + CACHE_TTL) \<and>
   (\<exists>cached. map_of (spaceCache s1) k = Some cached \<and> s_key cached = k)"
proof (induction fuel arbitrary: cursor s)
  case 0
  then show ?case by simp
next
  case (Suc fuel)
  obtain r s' where ls: "listSpaces R cfg 100 cursor s = (r, s')"
    by (cases "listSpaces R cfg 100 cursor s")
  show ?case
  proof (cases r)
    case (Inl e)
    with Suc.prems ls show ?thesis by simp
  next
    case (Inr spaces)
    note s' = listSpaces_Inr [OF ls [unfolded Inr]]
    show ?thesis
    proof (cases "find (\<lambda>sp. s_key sp = k) (r_results spaces)")
      case (Some sp)
      with Suc.prems ls Inr have eq: "space = sp" "s1 = s'" by simp_all
      from Some have mem: "sp \<in> set (r_results spaces)" and key: "s_key sp = k"
        by (auto simp: find_Some_iff)
      then have "k \<in> s_key ` set (r_results spaces)" by auto
      with eq key s' show ?thesis
        by (simp add: expiry_fold_cacheSpace cache_fold_cacheSpace)
    next
      case None
      with Suc.prems ls Inr obtain "next" where "findSpace fuel R cfg k next s' = (Some (Inr space), s1)"
        by (auto split: if_splits option.splits)
      then show ?thesis by (rule Suc.IH)
    qed
  qed
qed


lemma spaceCache_send [simp]: "spaceCache (send R c s) = spaceCache s"
  by (simp add: send_def)

lemma searchContent_cache:
  "searchContent R cfg query spaceKey limit title start bodyFormat s = (r, s1) \<Longrightarrow>
   spaceCache s1 = spaceCache s"
  unfolding searchContent_def Let_def
  by (auto split: sum.splits if_splits)

lemma spaceCache_searchContent [simp]:
  "spaceCache (snd (searchContent R cfg query spaceKey limit title start bodyFormat s)) = spaceCache s"
  by (cases "searchContent R cfg query spaceKey limit title start bodyFormat s")
    (simp add: searchContent_cache)

lemma spaceCache_getPage [simp]:
  "spaceCache (snd (getPage R cfg pageId bodyFormat s)) = spaceCache s"
  by (simp add: getPage_def Let_def split: sum.splits option.splits)

lemma getPage_cache:
  "getPage R cfg pageId bodyFormat s = (r, s1) \<Longrightarrow> spaceCache s1 = spaceCache s"
  using spaceCache_getPage [of R cfg pageId bodyFormat s] by simp

lemma spaceCache_updatePage [simp]:
  "spaceCache (snd (updatePage R cfg pageId title content version s)) = spaceCache s"
  by (auto simp: updatePage_def Let_def dest: getPage_cache split: prod.splits sum.splits option.splits)

lemma spaceCache_deletePage [simp]:
  "spaceCache (snd (deletePage R cfg pageId s)) = spaceCache s"
  by (auto simp: deletePage_def Let_def dest: getPage_cache split: prod.splits sum.splits option.splits)

lemma spaceCache_movePage [simp]:
  "spaceCache (snd (movePage R cfg pageId target parentId s)) = spaceCache s"
  by (auto simp: movePage_def Let_def dest: getPage_cache split: prod.splits sum.splits option.splits)

lemma enrichPage_cache:
  "enrichPage R cfg format page s = (page', s1) \<Longrightarrow> spaceCache s1 = spaceCache s"
  by (auto simp: enrichPage_def Let_def split: sum.splits if_splits)

lemma enrichAll_cache:
  "enrichAll R cfg format pages s = (pages', s1) \<Longrightarrow> spaceCache s1 = spaceCache s"
proof (induction pages arbitrary: s pages' s1)
  case Nil
  then show ?case by simp
next
  case (Cons page pages)
  obtain page' s2 where p: "enrichPage R cfg format page s = (page', s2)"
    by (cases "enrichPage R cfg format page s")
  obtain rest s3 where r: "enrichAll R cfg format pages s2 = (rest, s3)"
    by (cases "enrichAll R cfg format pages s2")
  from Cons.prems p r have "s1 = s3" by simp
  with Cons.IH [OF r] enrichPage_cache [OF p] show ?case by simp
qed

lemma enrichListing_cache:
  "enrichListing R cfg bodyFormat data s = (data', s1) \<Longrightarrow> spaceCache s1 = spaceCache s"
  by (auto simp: enrichListing_def dest: enrichAll_cache split: prod.splits if_splits)

lemma spaceCache_getSpaceContent [simp]:
  "spaceCache (snd (getSpaceContent R cfg spaceKey limit start bodyFormat s)) = spaceCache s"
  by (auto simp: getSpaceContent_def Let_def dest: enrichListing_cache
      split: sum.splits prod.splits)

lemma spaceCache_getPageChildren [simp]:
  "spaceCache (snd (getPageChildren R cfg pageId limit start bodyFormat s)) = spaceCache s"
proof -
  obtain r s1 where g: "getPage R cfg pageId None s = (r, s1)"
    by (cases "getPage R cfg pageId None s")
  note c1 = getPage_cache [OF g]
  have "spaceCache s2 = spaceCache s"
    if "enrichListing R cfg bodyFormat data (send R c s1) = (data', s2)" for data c data' s2
    using enrichListing_cache [OF that] c1 by simp
  with g c1 show ?thesis
    by (auto simp: getPageChildren_def Let_def split: sum.splits prod.splits option.splits)
qed

lemma list_all_update:
  "list_all P al \<Longrightarrow> P (k, v) \<Longrightarrow> list_all P (AList.update k v al)"
  by (induction al) auto

lemma cacheAllowed_cacheSpace:
  "cacheAllowed cfg s \<Longrightarrow> s_key x \<in> set (allowedSpaces cfg) \<Longrightarrow> cacheAllowed cfg (cacheSpace x s)"
  by (simp add: cacheAllowed_def cacheSpace_def Let_def list_all_update)

lemma cacheAllowed_fold:
  "cacheAllowed cfg s \<Longrightarrow> \<forall>x \<in> set xs. s_key x \<in> set (allowedSpaces cfg) \<Longrightarrow>
   cacheAllowed cfg (fold cacheSpace xs s)"
  by (induction xs arbitrary: s) (auto simp: cacheAllowed_cacheSpace)

lemma cacheAllowed_send [simp]: "cacheAllowed cfg (send R c s) = cacheAllowed cfg s"
  by (simp add: cacheAllowed_def)

lemma cacheAllowed_listSpaces:
  "cacheAllowed cfg s \<Longrightarrow> cacheAllowed cfg (snd (listSpaces R cfg limit cursor s))"
proof -
  assume inv: "cacheAllowed cfg s"
  have "cacheAllowed cfg (fold cacheSpace
      (filter (\<lambda>space. validateSpaceAccess (s_key space) (allowedSpaces cfg)) xs) (send R c s))"
    for xs c
    by (rule cacheAllowed_fold) (simp_all add: inv validateSpaceAccess_def)
  then show ?thesis
    using inv by (simp add: listSpaces_def Let_def split: sum.splits)
qed

lemma cacheAllowed_findSpace:
  "cacheAllowed cfg s \<Longrightarrow> cacheAllowed cfg (snd (findSpace fuel R cfg k cursor s))"
proof (induction fuel arbitrary: cursor s)
  case 0
  then show ?case by simp
next
  case (Suc fuel)
  obtain r s1 where ls: "listSpaces R cfg 100 cursor s = (r, s1)"
    by (cases "listSpaces R cfg 100 cursor s")
  with cacheAllowed_listSpaces [OF Suc.prems, of R 100 cursor] have s1: "cacheAllowed cfg s1"
    by simp
  with Suc.IH have "cacheAllowed cfg (snd (findSpace fuel R cfg k next s1))" for "next"
    by blast
  with ls s1 show ?case
    by (auto split: sum.splits option.splits)
qed

lemma cacheAllowed_getSpaceByKey:
  "cacheAllowed cfg s \<Longrightarrow> cacheAllowed cfg (snd (getSpaceByKey fuel R cfg k s))"
  by (simp add: getSpaceByKey_def cacheAllowed_findSpace)

lemma cacheAllowed_getSpaceById:
  "cacheAllowed cfg s \<Longrightarrow> cacheAllowed cfg (snd (getSpaceById R cfg spaceId s))"
proof -
  assume inv: "cacheAllowed cfg s"
  have "cacheAllowed cfg (cacheSpace data (send R c s))"
    if "s_key data \<in> set (allowedSpaces cfg)" for data c
    using inv that by (intro cacheAllowed_cacheSpace) simp_all
  then show ?thesis
    using inv
    by (auto simp: getSpaceById_def Let_def validateSpaceAccess_def
        split: option.splits sum.splits)
qed

lemma cacheAllowed_createPage:
  "cacheAllowed cfg s \<Longrightarrow> cacheAllowed cfg (snd (createPage fuel R cfg k title content parentId s))"
proof -
  assume inv: "cacheAllowed cfg s"
  obtain r s1 where g: "getSpaceByKey fuel R cfg k s = (r, s1)"
    by (cases "getSpaceByKey fuel R cfg k s")
  with cacheAllowed_getSpaceByKey [OF inv, of fuel R k] have "cacheAllowed cfg s1"
    by simp
  with inv g show ?thesis
    by (auto simp: createPage_def Let_def split: option.splits sum.splits)
qed

lemma cacheAllowed_perform:
  "cacheAllowed cfg s \<Longrightarrow> cacheAllowed cfg (perform fuel R cfg op s)"
proof (cases op)
  case (CreatePage spaceKey title content parentId)
  assume "cacheAllowed cfg s"
  with CreatePage show ?thesis by (simp add: cacheAllowed_createPage)
next
  case (ListSpaces limit cursor)
  assume "cacheAllowed cfg s"
  with ListSpaces show ?thesis by (simp add: cacheAllowed_listSpaces)
next
  case (GetSpaceById spaceId)
  assume "cacheAllowed cfg s"
  with GetSpaceById show ?thesis by (simp add: cacheAllowed_getSpaceById)
next
  case (GetSpaceByKey spaceKey)
  assume "cacheAllowed cfg s"
  with GetSpaceByKey show ?thesis by (simp add: cacheAllowed_getSpaceByKey)
qed (simp_all add: cacheAllowed_def)

lemma cacheAllowed_run:
  "cacheAllowed cfg s \<Longrightarrow> cacheAllowed cfg (fold (perform fuel R cfg) ops s)"
  by (induction ops arbitrary: s) (simp_all add: cacheAllowed_perform)


lemma cacheAllowed_newClient: "cacheAllowed cfg (newClient now)"
  by (simp add: cacheAllowed_def newClient_def)

lemma cacheAllowed_entry:
  "cacheAllowed cfg s \<Longrightarrow> (key, space) \<in> set (spaceCache s) \<Longrightarrow>
   key \<in> set (allowedSpaces cfg) \<and> s_key space = key"
  by (auto simp: cacheAllowed_def list_all_iff)

lemma getSpaceById_allowed:
  "cacheAllowed cfg s \<Longrightarrow> getSpaceById R cfg spaceId s = (Inr space, s') \<Longrightarrow>
   s_key space \<in> set (allowedSpaces cfg)"
proof -
  assume inv: "cacheAllowed cfg s" and res: "getSpaceById R cfg spaceId s = (Inr space, s')"
  show ?thesis
  proof (cases "find (\<lambda>(key, space). s_id space = spaceId \<and> isSpaceCacheValid s key) (spaceCache s)")
    case None
    with res show ?thesis
      by (auto simp: getSpaceById_def Let_def validateSpaceAccess_def split: sum.splits if_splits)
  next
    case (Some entry)
    obtain key sp where entry: "entry = (key, sp)" by (cases entry)
    with Some have "(key, sp) \<in> set (spaceCache s)"
      by (metis find_Some_iff nth_mem)
    with inv have "s_key sp \<in> set (allowedSpaces cfg)"
      by (auto dest: cacheAllowed_entry)
    with res Some entry show ?thesis
      by (simp add: getSpaceById_def)
  qed
qed

lemma getSpaceByKey_allowed:
  "cacheAllowed cfg s \<Longrightarrow> getSpaceByKey fuel R cfg k s = (Some (Inr space), s') \<Longrightarrow>
   s_key space \<in> set (allowedSpaces cfg)"
proof -
  assume inv: "cacheAllowed cfg s" and res: "getSpaceByKey fuel R cfg k s = (Some (Inr space), s')"
  from res have k: "k \<in> set (allowedSpaces cfg)"
    by (auto simp: getSpaceByKey_def validateSpaceAccess_def split: if_splits)
  show ?thesis
  proof (cases "isSpaceCacheValid s k \<and> map_of (spaceCache s) k \<noteq> None")
    case True
    then obtain sp where sp: "map_of (spaceCache s) k = Some sp" by auto
    then have "(k, sp) \<in> set (spaceCache s)" by (rule map_of_SomeD)
    with inv have "s_key sp = k" by (auto dest: cacheAllowed_entry)
    moreover from res True k sp have "space = sp"
      by (simp add: getSpaceByKey_def validateSpaceAccess_def)
    ultimately show ?thesis using k by simp
  next
    case False
    with res k have "findSpace fuel R cfg k None s = (Some (Inr space), s')"
      by (simp add: getSpaceByKey_def validateSpaceAccess_def split: if_splits)
    from findSpace_found [OF this] k show ?thesis by simp
  qed
qed

lemma enrichPage_failed:
  "pageResponse R (calls s) (GetContent (p_id page) (format @ '',version,space'')) = Inl e \<Longrightarrow>
   enrichPage R cfg format page s =
     (page, (send R (GetContent (p_id page) (format @ '',version,space'')) s)
        \<lparr>warnings := (if debug cfg then warnings s @ [bodyWarning page] else warnings s)\<rparr>)"
  by (simp add: enrichPage_def Let_def bodyWarning_def send_def)

lemma enrichPage_page:
  "enrichPage R cfg format page s = (page', s1) \<Longrightarrow>
   page' = page \<or> (\<exists>b. page' = page\<lparr>p_body := Some b\<rparr>)"
  by (auto simp: enrichPage_def Let_def split: sum.splits if_splits)

lemma enrichPage_warnings:
  "enrichPage R cfg format page s = (page', s1) \<Longrightarrow>
   set (warnings s) \<subseteq> set (warnings s1) \<and> (\<not> debug cfg \<longrightarrow> warnings s1 = warnings s)"
  by (auto simp: enrichPage_def Let_def send_def split: sum.splits if_splits)

lemma enrichAll_Cons:
  "enrichPage R cfg format page s = (page', s1) \<Longrightarrow> enrichAll R cfg format pages s1 = (pages', s2) \<Longrightarrow>
   enrichAll R cfg format (page # pages) s = (page' # pages', s2)"
  by simp

lemma enrichAll_pages:
  "enrichAll R cfg format pages s = (pages', s') \<Longrightarrow>
   length pages' = length pages \<and>
   (\<forall>i < length pages. pages' ! i = pages ! i \<or> (\<exists>b. pages' ! i = (pages ! i)\<lparr>p_body := Some b\<rparr>)) \<and>
   set (warnings s) \<subseteq> set (warnings s') \<and> (\<not> debug cfg \<longrightarrow> warnings s' = warnings s)"
proof (induction pages arbitrary: s pages' s')
  case Nil
  then show ?case by simp
next
  case (Cons page pages)
  obtain p1 s1 where p: "enrichPage R cfg format page s = (p1, s1)"
    by (cases "enrichPage R cfg format page s")
  obtain rest s2 where r: "enrichAll R cfg format pages s1 = (rest, s2)"
    by (cases "enrichAll R cfg format pages s1")
  from Cons.prems enrichAll_Cons [OF p r] have eq: "pages' = p1 # rest" "s' = s2"
    by simp_all
  note ih = Cons.IH [OF r]
  note pg = enrichPage_page [OF p]
  note w = enrichPage_warnings [OF p]
  have len: "length pages' = length (page # pages)"
    using eq ih by simp
  have each: "pages' ! i = (page # pages) ! i \<or> (\<exists>b. pages' ! i = ((page # pages) ! i)\<lparr>p_body := Some b\<rparr>)"
    if "i < length (page # pages)" for i
  proof (cases i)
    case 0
    with eq pg show ?thesis by simp
  next
    case (Suc j)
    with that have "j < length pages" by simp
    with ih have "rest ! j = pages ! j \<or> (\<exists>b. rest ! j = (pages ! j)\<lparr>p_body := Some b\<rparr>)"
      by blast
    with eq Suc show ?thesis by simp
  qed
  have warn: "set (warnings s) \<subseteq> set (warnings s')" "\<not> debug cfg \<longrightarrow> warnings s' = warnings s"
    using eq ih w by auto
  from len each warn show ?case by blast
qed

lemma enrichAll_failed:
  "enrichAll R cfg format (before @ page # after) s = (pages', s') \<Longrightarrow>
   pageResponse R (calls (snd (enrichAll R cfg format before s)))
     (GetContent (p_id page) (format @ '',version,space'')) = Inl e \<Longrightarrow>
   pages' ! length before = page \<and> (debug cfg \<longrightarrow> bodyWarning page \<in> set (warnings s'))"
proof (induction before arbitrary: s pages' s')
  case Nil
  let ?call = "GetContent (p_id page) (format @ '',version,space'')"
  from Nil.prems(2) have f: "pageResponse R (calls s) ?call = Inl e" by simp
  note p = enrichPage_failed [OF f, of cfg]
  obtain rest s2 where r: "enrichAll R cfg format after
      ((send R ?call s)\<lparr>warnings := (if debug cfg then warnings s @ [bodyWarning page] else warnings s)\<rparr>) = (rest, s2)"
    by (cases "enrichAll R cfg format after
      ((send R ?call s)\<lparr>warnings := (if debug cfg then warnings s @ [bodyWarning page] else warnings s)\<rparr>)")
  from Nil.prems(1) enrichAll_Cons [OF p r] have eq: "pages' = page # rest" "s' = s2"
    by simp_all
  from enrichAll_pages [OF r] have "debug cfg \<longrightarrow> bodyWarning page \<in> set (warnings s2)"
    by auto
  with eq show ?case by simp
next
  case (Cons b before)
  obtain p1 s1 where p: "enrichPage R cfg format b s = (p1, s1)"
    by (cases "enrichPage R cfg format b s")
  obtain rest s2 where r: "enrichAll R cfg format (before @ page # after) s1 = (rest, s2)"
    by (cases "enrichAll R cfg format (before @ page # after) s1")
  from Cons.prems(1) enrichAll_Cons [OF p r] have eq: "pages' = p1 # rest" "s' = s2"
    by simp_all
  obtain bs s3 where b: "enrichAll R cfg format before s1 = (bs, s3)"
    by (cases "enrichAll R cfg format before s1")
  from enrichAll_Cons [OF p b] have "snd (enrichAll R cfg format (b # before) s) = s3"
    by simp
  with Cons.prems(2) b have "pageResponse R (calls (snd (enrichAll R cfg format before s1)))
     (GetContent (p_id page) (format @ '',version,space'')) = Inl e"
    by simp
  from Cons.IH [OF r this] eq show ?case by simp
qed

lemma getPage_Inr:
  "getPage R cfg pageId bodyFormat s = (Inr page, s1) \<Longrightarrow>
   \<exists>k. pageSpaceKey page = Some k \<and> k \<in> set (allowedSpaces cfg)"
  by (auto simp: getPage_def Let_def validateSpaceAccess_def split: sum.splits option.splits if_splits)


lemma enrichListing_results:
  "enrichListing R cfg bodyFormat data s0 = (data', s') \<Longrightarrow>
   data' = data\<lparr>r_results := r_results data'\<rparr> \<and>
   (if given bodyFormat
    then enrichAll R cfg (bodyFormatField bodyFormat) (r_results data) s0 = (r_results data', s')
    else r_results data' = r_results data \<and> s' = s0)"
  by (cases "r_results data") (auto simp: enrichListing_def split: prod.splits if_splits)

section \<open>Claims about the logger\<close>

text \<open>
  Claim C10, as stated, has the trim keep half of the lines and never drop the most
  recent one. The routine counts the segments \<^verbatim>\<open>split('\n')\<close> yields, and the text after
  the final newline is one of them: a file of two log lines has three segments, of which
  the trim keeps the last one, the empty one. Both lines are gone, the most recent
  included.
\<close>

theorem trim_drops_most_recent_line_counterexample:
  "maxSizeBytes (newLogger ''confluence-mcp.log'' 0)
     < length (''old'' @ [newline] @ ''NEWEST'' @ [newline]) \<and>
   split (''old'' @ [newline] @ ''NEWEST'' @ [newline]) = [''old'', ''NEWEST'', []] \<and>
   checkAndTrimLogFile (newLogger ''confluence-mcp.log'' 0)
     (Some (''old'' @ [newline] @ ''NEWEST'' @ [newline])) = Some []"
  by (simp add: checkAndTrimLogFile_def newLogger_def trimmedContent_def keepLines_def
      slice_def newline_def)

text \<open>
  Claim C10, amended. Whenever \<^verbatim>\<open>checkAndTrimLogFile\<close> rewrites the log file (its size
  is above the threshold), the new content is a suffix of the original: with \<open>n\<close> the
  number of segments \<^verbatim>\<open>split('\n')\<close> yields, it keeps exactly the last \<open>n div 2\<close> of
  them, in order, when \<open>2 \<le> n\<close>, and the whole content when \<open>n \<le> 1\<close>; the last segment
  of the original is the last segment of the result. For a file of \<open>m\<close> log lines, each
  ended by a newline, the result holds the last \<open>(m - 1) div 2\<close> of them: the most recent
  line survives from three lines on.
\<close>

theorem checkAndTrimLogFile_keeps_trailing_segments:
  "maxSizeBytes L < length content \<Longrightarrow>
   (\<exists>content'. checkAndTrimLogFile L (Some content) = Some content' \<and>
      (2 \<le> length (split content) \<longrightarrow>
         split content' = drop (length (split content) - length (split content) div 2) (split content) \<and>
         length (split content') = length (split content) div 2) \<and>
      (length (split content) \<le> 1 \<longrightarrow> content' = content) \<and>
      suffix (split content') (split content) \<and>
      suffix content' content \<and>
      last (split content') = last (split content) \<and>
      (\<forall>entries. (\<forall>e \<in> set entries. newline \<notin> set e) \<longrightarrow> content = fileOf entries \<longrightarrow>
         content' = fileOf (drop (length entries - (length entries - 1) div 2) entries)))"
proof -
  assume big: "maxSizeBytes L < length content"
  let ?ls = "split content"
  let ?n = "length ?ls"
  let ?c = "trimmedContent content"
  have res: "checkAndTrimLogFile L (Some content) = Some ?c"
    using big by (simp add: checkAndTrimLogFile_def)
  have pos: "0 < ?n" using split_nonempty [of content] by simp
  have lines: "split ?c = (if ?n div 2 = 0 then ?ls else drop (?n - ?n div 2) ?ls)"
    by (simp add: trimmedContent_lines slice_neg keepLines_def)
  have half: "2 \<le> ?n \<longrightarrow> split ?c = drop (?n - ?n div 2) ?ls \<and> length (split ?c) = ?n div 2"
    using lines by auto
  have one: "?n \<le> 1 \<longrightarrow> ?c = content"
  proof
    assume "?n \<le> 1"
    then have "?n div 2 = 0" by simp
    then have "?c = join ?ls"
      by (simp add: trimmedContent_def Let_def slice_neg keepLines_def)
    then show "?c = content" by (simp add: join_split)
  qed
  have suf: "suffix (split ?c) ?ls"
    using lines by (auto simp: suffix_drop)
  have "suffix (join (slice (- int (keepLines ?ls)) ?ls)) (join ?ls)"
    by (auto simp: slice_neg join_drop_suffix)
  then have sufc: "suffix ?c content"
    by (simp add: trimmedContent_def Let_def join_split)
  have lst: "last (split ?c) = last ?ls"
  proof (cases "?n div 2 = 0")
    case True
    with lines show ?thesis by simp
  next
    case False
    with pos have "?n - ?n div 2 < ?n" by simp
    with lines False show ?thesis by (simp add: last_drop)
  qed
  have ent: "\<forall>entries. (\<forall>e \<in> set entries. newline \<notin> set e) \<longrightarrow> content = fileOf entries \<longrightarrow>
         ?c = fileOf (drop (length entries - (length entries - 1) div 2) entries)"
  proof (intro allI impI)
    fix entries
    assume clean: "\<forall>e \<in> set entries. newline \<notin> set e" and c: "content = fileOf entries"
    from big c have "entries \<noteq> []"
      by (auto simp: fileOf_def)
    from trimmedContent_fileOf [OF clean this] c
    show "?c = fileOf (drop (length entries - (length entries - 1) div 2) entries)"
      by simp
  qed
  from res half one suf sufc lst ent show ?thesis by blast
qed

theorem checkAndTrimLogFile_keeps_trailing_segments_witness:
  "maxSizeBytes (newLogger ''confluence-mcp.log'' 0)
     < length (fileOf [''r1'', ''r2'', ''r3'', ''r4'']) \<and>
   split (fileOf [''r1'', ''r2'', ''r3'', ''r4'']) = [''r1'', ''r2'', ''r3'', ''r4'', []] \<and>
   checkAndTrimLogFile (newLogger ''confluence-mcp.log'' 0)
     (Some (fileOf [''r1'', ''r2'', ''r3'', ''r4''])) = Some (fileOf [''r4'']) \<and>
   split (fileOf [''r4'']) = [''r4'', []] \<and>
   maxSizeBytes (newLogger ''confluence-mcp.log'' 0) < length ''r1'' \<and>
   checkAndTrimLogFile (newLogger ''confluence-mcp.log'' 0) (Some ''r1'') = Some ''r1''"
proof -
  define L where "L = newLogger ''confluence-mcp.log'' 0"
  define es where "es = [''r1'', ''r2'', ''r3'', ''r4'']"
  define c where "c = fileOf es"
  have clean: "\<forall>e \<in> set es. newline \<notin> set e"
    by (simp add: es_def newline_def)
  have big: "maxSizeBytes L < length c"
    by (simp add: L_def c_def es_def fileOf_def newLogger_def)
  have sp: "split c = [''r1'', ''r2'', ''r3'', ''r4'', []]"
    unfolding c_def split_fileOf [OF clean] by (simp add: es_def)
  from checkAndTrimLogFile_keeps_trailing_segments [OF big] obtain c' where
    c': "checkAndTrimLogFile L (Some c) = Some c'" and
    h: "2 \<le> length (split c) \<longrightarrow>
          split c' = drop (length (split c) - length (split c) div 2) (split c) \<and>
          length (split c') = length (split c) div 2" and
    e: "\<forall>entries. (\<forall>e \<in> set entries. newline \<notin> set e) \<longrightarrow> c = fileOf entries \<longrightarrow>
          c' = fileOf (drop (length entries - (length entries - 1) div 2) entries)"
    by blast
  from e clean have "c' = fileOf (drop (length es - (length es - 1) div 2) es)"
    by (simp add: c_def)
  then have kept: "c' = fileOf [''r4'']"
    by (simp add: es_def)
  from h have sp': "split c' = [''r4'', []]"
    by (simp add: sp)
  from c' kept have many: "checkAndTrimLogFile L (Some c) = Some (fileOf [''r4''])"
    by simp
  from sp' kept have sp4: "split (fileOf [''r4'']) = [''r4'', []]"
    by simp
  define short where "short = ''r1''"
  have big1: "maxSizeBytes L < length short"
    by (simp add: L_def short_def newLogger_def)
  have sp1: "split short = [''r1'']"
    by (simp add: short_def newline_def)
  from checkAndTrimLogFile_keeps_trailing_segments [OF big1] obtain c1 where
    c1: "checkAndTrimLogFile L (Some short) = Some c1" and
    h1: "length (split short) \<le> 1 \<longrightarrow> c1 = short"
    by blast
  from h1 have "c1 = short"
    by (simp add: sp1)
  with c1 have one: "checkAndTrimLogFile L (Some short) = Some short"
    by simp
  from big sp many sp4 big1 one show ?thesis
    unfolding L_def c_def es_def short_def by (intro conjI)
qed



text \<open>
  Claim C9. The \<^verbatim>\<open>params\<close> property of a request entry is the query-parameter object
  as passed (\<^verbatim>\<open>{}\<close> when it is absent or falsy): it is not sanitised, so every value in
  it, under a sensitive name or not, reaches the line appended to the log file.
\<close>

theorem logRequest_params_verbatim:
  "logRequest stringify L ts m u params data file
     = appendFile (checkAndTrimLogFile L file)
         (stringify (requestEntry ts m u params data) @ [newline]) \<and>
   at_path (requestEntry ts m u params data) [Key ''params'']
     = Some (case params of None \<Rightarrow> JObj [] | Some p \<Rightarrow> if truthy p then p else JObj []) \<and>
   (\<forall>p path. params = Some p \<longrightarrow> truthy p \<longrightarrow>
      at_path (requestEntry ts m u params data) (Key ''params'' # path) = at_path p path)"
  by (auto simp: logRequest_def writeLog_def requestEntry_def split: option.splits)

theorem logRequest_params_verbatim_witness:
  "truthy sample_params \<and> isSensitive ''access_token'' \<and>
   at_path (requestEntry ''t'' ''get'' ''/pages'' (Some sample_params) None)
     [Key ''params'', Key ''access_token''] = Some (JStr ''s3cr3t'')"
proof -
  have tr: "truthy sample_params"
    by (simp add: sample_params_def truthy_def)
  have sens: "isSensitive ''access_token''"
    by code_simp
  have "at_path sample_params [Key ''access_token''] = Some (JStr ''s3cr3t'')"
    by (simp add: sample_params_def)
  with logRequest_params_verbatim
    [of "\<lambda>_. []" "newLogger [] 3" "''t''" "''get''" "''/pages''" "Some sample_params" None None] tr
  have "at_path (requestEntry ''t'' ''get'' ''/pages'' (Some sample_params) None)
     [Key ''params'', Key ''access_token''] = Some (JStr ''s3cr3t'')"
    by simp
  with tr sens show ?thesis by simp
qed


section \<open>Claims about the client and the dispatcher\<close>

text \<open>
  Claim C2. Whatever page of spaces the remote system returns, \<^verbatim>\<open>listSpaces\<close> succeeds
  and returns exactly the spaces of that page whose key is in the allowlist (string
  equality, so \<^verbatim>\<open>dev\<close> does not match \<^verbatim>\<open>DEV\<close>), and its \<^verbatim>\<open>size\<close> is the number of
  spaces left after the filter, not the remote count.
\<close>

theorem listSpaces_filters_by_allowlist:
  "spacesResponse R (calls s) (GetSpaces limit (if given cursor then cursor else None)) = Inr data \<Longrightarrow>
   (\<exists>result s'. listSpaces R cfg limit cursor s = (Inr result, s') \<and>
      r_results result = filter (\<lambda>space. s_key space \<in> set (allowedSpaces cfg)) (r_results data) \<and>
      (\<forall>space \<in> set (r_results result). s_key space \<in> set (allowedSpaces cfg)) \<and>
      r_size result = int (length (r_results result)))"
  by (simp add: listSpaces_def validateSpaceAccess_def Let_def)

theorem listSpaces_filters_by_allowlist_witness:
  "\<exists>result s'. listSpaces threeSpaces devOnly 50 None (newClient 0) = (Inr result, s') \<and>
     map s_key (r_results result) = [''DEV''] \<and> r_size result = 1"
proof -
  let ?data = "\<lparr>r_results = [mkSpace ''1'' ''DEV'', mkSpace ''2'' ''SECRET'', mkSpace ''3'' ''dev''],
          r_start = 0, r_limit = 50, r_size = 3, r_links = noLinks\<rparr>"
  have resp: "spacesResponse threeSpaces (calls (newClient 0))
      (GetSpaces 50 (if given None then None else None)) = Inr ?data"
    by (simp add: threeSpaces_def)
  from listSpaces_filters_by_allowlist [OF resp, of devOnly] obtain result s' where
    r: "listSpaces threeSpaces devOnly 50 None (newClient 0) = (Inr result, s')"
    and f: "r_results result = filter (\<lambda>space. s_key space \<in> set (allowedSpaces devOnly)) (r_results ?data)"
    and n: "r_size result = int (length (r_results result))"
    by blast
  from f have "map s_key (r_results result) = [''DEV'']"
    by (simp add: devOnly_def mkSpace_def)
  with r n show ?thesis by auto
qed

text \<open>
  Claim C7. A \<^verbatim>\<open>search_confluence\<close> call with neither a query nor a title (absent or
  empty) fails in the dispatcher with the validation message, wrapped like every tool
  error, and leaves the client state as it was: no request is issued.
\<close>

theorem search_without_query_or_title_fails_validation:
  "\<not> given query \<Longrightarrow> \<not> given title \<Longrightarrow>
   callTool sdkMessage fuel R cfg (search_confluence query title spaceKey limit start bodyFormat) s
     = (Some (Inl (McpError InternalError
          (''Error executing search_confluence: '' @ missingSearchArgument))), s)"
  by (simp add: callTool_def)


theorem search_without_query_or_title_fails_validation_witness:
  "\<not> given None \<and> \<not> given (Some []) \<and>
   callTool (\<lambda>code m. m) 0 deadRemote devOnly
       (search_confluence None (Some []) (Some ''DEV'') None None None) (newClient 0)
     = (Some (Inl (McpError InternalError
          (''Error executing search_confluence: '' @ missingSearchArgument))), newClient 0) \<and>
   calls (newClient 0) = []"
proof -
  have q: "\<not> given None" and t: "\<not> given (Some [])"
    by (simp_all add: given_def)
  from search_without_query_or_title_fails_validation [OF q t] q t
  show ?thesis by (simp add: newClient_def)
qed


text \<open>
  Claim C4. When the page is fetched and its space is allowed, \<^verbatim>\<open>updatePage\<close> submits the
  version number the caller gave, whatever the fetched page's version is, and
  \<^verbatim>\<open>movePage\<close> submits the version of the page it has just fetched. When the remote
  system rejects that write, the rejection is the error of the operation, unchanged, and
  the write is the last request issued: there is no second fetch and no retry. The tool
  handler puts the rejection's message after the operation name.
\<close>

theorem version_conflict_is_surfaced_unchanged:
  assumes cur: "pageResponse R (calls s) (GetContent pageId ''space,version'') = Inr cur"
    and key: "pageSpaceKey cur = Some k"
    and ok: "k \<in> set (allowedSpaces cfg)"
    and s1: "s1 = send R (GetContent pageId ''space,version'') s"
    and upd: "upd = PutPageUpdate pageId
        \<lparr>u_id = pageId, u_status = ''current'', u_title = title, u_type = ''page'',
         u_version_number = version,
         u_body_storage = \<lparr>bv_value = content, bv_representation = ''storage''\<rparr>\<rparr>"
    and mov: "mov = PutPageMove pageId
        \<lparr>m_version_number = v_number (p_version cur), m_title = p_title cur, m_type = ''page'',
         m_space_key = target,
         m_ancestors = (if given parentId then Some [the parentId] else None)\<rparr>"
  shows "(pageResponse R (calls s1) upd = Inl e \<longrightarrow>
            updatePage R cfg pageId title content version s = (Inl (Upstream e), send R upd s1) \<and>
            calls (send R upd s1) = calls s @ [GetContent pageId ''space,version'', upd] \<and>
            callTool sdkMessage fuel R cfg (update_page pageId title content version) s
              = (Some (Inl (McpError InternalError
                   (''Error executing update_page: '' @ errorMessage sdkMessage (Upstream e)))),
                 send R upd s1)) \<and>
         (target \<in> set (allowedSpaces cfg) \<longrightarrow> pageResponse R (calls s1) mov = Inl e \<longrightarrow>
            movePage R cfg pageId target parentId s = (Inl (Upstream e), send R mov s1) \<and>
            calls (send R mov s1) = calls s @ [GetContent pageId ''space,version'', mov] \<and>
            callTool sdkMessage fuel R cfg (move_page pageId target parentId) s
              = (Some (Inl (McpError InternalError
                   (''Error executing move_page: '' @ errorMessage sdkMessage (Upstream e)))),
                 send R mov s1))"
proof -
  note gp = getPage_allowed [OF cur key ok, folded s1]
  have u: "updatePage R cfg pageId title content version s = (Inl (Upstream e), send R upd s1)"
    if "pageResponse R (calls s1) upd = Inl e"
    using that key ok by (simp add: updatePage_def gp upd validateSpaceAccess_def)
  have m: "movePage R cfg pageId target parentId s = (Inl (Upstream e), send R mov s1)"
    if "pageResponse R (calls s1) mov = Inl e" "target \<in> set (allowedSpaces cfg)"
    using that key ok by (simp add: movePage_def gp mov validateSpaceAccess_def)
  have c: "calls (send R c s1) = calls s @ [GetContent pageId ''space,version'', c]" for c
    by (simp add: s1 calls_send)
  show ?thesis
    using u m c by (simp add: callTool_def)
qed

theorem version_conflict_is_surfaced_unchanged_witness:
  "updatePage conflictRemote devOnly ''42'' ''Notes'' ''<p>hi</p>'' 3 (newClient 0)
     = (Inl (Upstream conflict),
        (newClient 0)\<lparr>calls := [GetContent ''42'' ''space,version'',
           PutPageUpdate ''42'' (updateRequest ''42'' ''Notes'' ''<p>hi</p>'' 3)]\<rparr>) \<and>
   3 < v_number (p_version (mkPage ''42'' ''DEV'' 7))"
proof -
  let ?s = "newClient 0"
  let ?get = "GetContent ''42'' ''space,version''"
  let ?upd = "PutPageUpdate ''42'' (updateRequest ''42'' ''Notes'' ''<p>hi</p>'' 3)"
  have cur: "pageResponse conflictRemote (calls ?s) ?get = Inr (mkPage ''42'' ''DEV'' 7)"
    by (simp add: conflictRemote_def)
  have key: "pageSpaceKey (mkPage ''42'' ''DEV'' 7) = Some ''DEV''"
    by (simp add: pageSpaceKey_def mkPage_def)
  have ok: "''DEV'' \<in> set (allowedSpaces devOnly)"
    by (simp add: devOnly_def)
  have rej: "pageResponse conflictRemote (calls (send conflictRemote ?get ?s)) ?upd = Inl conflict"
    by (simp add: conflictRemote_def)
  from version_conflict_is_surfaced_unchanged
    [where e = conflict and title = "''Notes''" and content = "''<p>hi</p>''" and version = 3,
      OF cur key ok refl refl refl] rej
  have "updatePage conflictRemote devOnly ''42'' ''Notes'' ''<p>hi</p>'' 3 ?s
      = (Inl (Upstream conflict), send conflictRemote ?upd (send conflictRemote ?get ?s))"
    by (simp add: updateRequest_def)
  then show ?thesis
    by (simp add: send_def newClient_def conflictRemote_def deadRemote_def mkPage_def)
qed












text \<open>
  Claim C8. After any sequence of client operations from a fresh client, every entry of
  the space cache is filed under a key of the allowlist and holds a space with that key;
  each operation keeps this invariant (\<^verbatim>\<open>listSpaces\<close> caches filtered results only,
  \<^verbatim>\<open>getSpaceById\<close> validates before it caches, \<^verbatim>\<open>getSpaceByKey\<close> leaves the state alone
  for a key outside the allowlist). So a space returned by \<^verbatim>\<open>getSpaceById\<close> or
  \<^verbatim>\<open>getSpaceByKey\<close>, from the cache or not, has an allowed key.
\<close>

theorem space_cache_holds_allowed_spaces_only:
  "(\<forall>(key, space) \<in> set (spaceCache (fold (perform fuel R cfg) ops (newClient now))).
      key \<in> set (allowedSpaces cfg) \<and> s_key space = key) \<and>
   (cacheAllowed cfg s \<longrightarrow> cacheAllowed cfg (perform fuel R cfg op s)) \<and>
   (cacheAllowed cfg s \<longrightarrow> getSpaceById R cfg spaceId s = (Inr space, s') \<longrightarrow>
      s_key space \<in> set (allowedSpaces cfg)) \<and>
   (cacheAllowed cfg s \<longrightarrow> getSpaceByKey fuel R cfg k s = (Some (Inr space), s') \<longrightarrow>
      s_key space \<in> set (allowedSpaces cfg)) \<and>
   (k \<notin> set (allowedSpaces cfg) \<longrightarrow> snd (getSpaceByKey fuel R cfg k s) = s)"
proof -
  have "cacheAllowed cfg (fold (perform fuel R cfg) ops (newClient now))"
    by (rule cacheAllowed_run) (rule cacheAllowed_newClient)
  then have reach: "\<forall>(key, space) \<in> set (spaceCache (fold (perform fuel R cfg) ops (newClient now))).
      key \<in> set (allowedSpaces cfg) \<and> s_key space = key"
    by (simp add: cacheAllowed_def list_all_iff)
  have denied: "snd (getSpaceByKey fuel R cfg k s) = s" if "k \<notin> set (allowedSpaces cfg)"
    using that by (simp add: getSpaceByKey_def validateSpaceAccess_def)
  show ?thesis
  proof (intro conjI impI)
    show "\<forall>(key, space) \<in> set (spaceCache (fold (perform fuel R cfg) ops (newClient now))).
      key \<in> set (allowedSpaces cfg) \<and> s_key space = key"
      by (rule reach)
  next
    assume "cacheAllowed cfg s"
    then show "cacheAllowed cfg (perform fuel R cfg op s)"
      by (rule cacheAllowed_perform)
  next
    assume "cacheAllowed cfg s" "getSpaceById R cfg spaceId s = (Inr space, s')"
    then show "s_key space \<in> set (allowedSpaces cfg)"
      by (rule getSpaceById_allowed)
  next
    assume "cacheAllowed cfg s" "getSpaceByKey fuel R cfg k s = (Some (Inr space), s')"
    then show "s_key space \<in> set (allowedSpaces cfg)"
      by (rule getSpaceByKey_allowed)
  next
    assume "k \<notin> set (allowedSpaces cfg)"
    then show "snd (getSpaceByKey fuel R cfg k s) = s"
      by (rule denied)
  qed
qed

theorem space_cache_holds_allowed_spaces_only_witness:
  "cacheAllowed devOnly devCached \<and>
   getSpaceById withSecret devOnly ''1'' devCached = (Inr (mkSpace ''1'' ''DEV''), devCached) \<and>
   s_key (mkSpace ''1'' ''DEV'') \<in> set (allowedSpaces devOnly) \<and>
   ''SECRET'' \<notin> set (allowedSpaces devOnly) \<and>
   snd (getSpaceByKey 5 withSecret devOnly ''SECRET'' devCached) = devCached \<and>
   list_all (\<lambda>(key, space). key \<in> set (allowedSpaces devOnly))
     (spaceCache (fold (perform 5 withSecret devOnly)
        [ListSpaces 50 None, GetSpaceById ''2'', GetSpaceByKey ''SECRET''] (newClient 0)))"
proof -
  note main = space_cache_holds_allowed_spaces_only
    [of 5 withSecret devOnly "[ListSpaces 50 None, GetSpaceById ''2'', GetSpaceByKey ''SECRET'']" 0
      devCached "Wait 0" "''1''" "mkSpace ''1'' ''DEV''" devCached "''SECRET''"]
  have inv: "cacheAllowed devOnly devCached"
    by (simp add: cacheAllowed_def devCached_def devOnly_def mkSpace_def)
  have byId: "getSpaceById withSecret devOnly ''1'' devCached = (Inr (mkSpace ''1'' ''DEV''), devCached)"
    by (simp add: getSpaceById_def devCached_def isSpaceCacheValid_def mkSpace_def CACHE_TTL_def)
  have no: "''SECRET'' \<notin> set (allowedSpaces devOnly)"
    by (simp add: devOnly_def)
  from main [THEN conjunct2, THEN conjunct2, THEN conjunct1] inv byId
  have a: "s_key (mkSpace ''1'' ''DEV'') \<in> set (allowedSpaces devOnly)"
    by (rule mp [OF mp])
  from main [THEN conjunct2, THEN conjunct2, THEN conjunct2, THEN conjunct2] no
  have b: "snd (getSpaceByKey 5 withSecret devOnly ''SECRET'' devCached) = devCached"
    by (rule mp)
  define final where "final = spaceCache (fold (perform 5 withSecret devOnly)
        [ListSpaces 50 None, GetSpaceById ''2'', GetSpaceByKey ''SECRET''] (newClient 0))"
  from main [THEN conjunct1]
  have "\<forall>(key, space) \<in> set final. key \<in> set (allowedSpaces devOnly) \<and> s_key space = key"
    unfolding final_def .
  then have "list_all (\<lambda>(key, space). key \<in> set (allowedSpaces devOnly)) final"
    by (auto simp: list_all_iff)
  then have c: "list_all (\<lambda>(key, space). key \<in> set (allowedSpaces devOnly))
     (spaceCache (fold (perform 5 withSecret devOnly)
        [ListSpaces 50 None, GetSpaceById ''2'', GetSpaceByKey ''SECRET''] (newClient 0)))"
    unfolding final_def .
  from inv byId a no b c show ?thesis by (intro conjI)
qed


text \<open>
  Claim C6, as stated, has a warning logged whenever a body fetch fails. The warning is
  written only in debug mode: with the debug flag off the failed fetch leaves no trace
  but the request itself (the fetch goes through the global HTTP client, which the audit
  logger does not intercept).
\<close>

theorem failed_body_fetch_is_silent_counterexample:
  "\<not> debug devOnly \<and>
   pageResponse brokenBodies [GetPages ''DEV'' 25 0]
     (GetContent ''7'' ''body.storage,version,space'') = Inl notFound \<and>
   getSpaceContent brokenBodies devOnly ''DEV'' 25 0 (Some ''storage'') (newClient 0)
     = (Inr oneListed,
        (newClient 0)\<lparr>calls := [GetPages ''DEV'' 25 0,
                                  GetContent ''7'' ''body.storage,version,space'']\<rparr>) \<and>
   warnings ((newClient 0)\<lparr>calls := [GetPages ''DEV'' 25 0,
                                  GetContent ''7'' ''body.storage,version,space'']\<rparr>) = []"
  by (simp add: getSpaceContent_def enrichListing_def enrichPage_def validateSpaceAccess_def
      devOnly_def brokenBodies_def deadRemote_def oneListed_def newClient_def send_def given_def
      bodyFormatField_def mkPage_def Let_def)

text \<open>
  Claim C6, amended. Once its listing has succeeded, \<^verbatim>\<open>getSpaceContent\<close> (for an allowed
  space) and \<^verbatim>\<open>getPageChildren\<close> (for a fetched parent page) return the listing
  whatever the body fetches do. The enriched listing has the pages of the listing in the
  same order, each as listed or with a body attached; a page whose body fetch fails is
  returned as listed, and a warning naming it is written when the debug flag is set;
  with the flag off no warning is written.
\<close>

theorem body_enrichment_failure_is_not_fatal:
  "(k \<in> set (allowedSpaces cfg) \<longrightarrow> pagesResponse R (calls s) (GetPages k limit start) = Inr data \<longrightarrow>
      getSpaceContent R cfg k limit start bodyFormat s
        = (Inr (fst (enrichListing R cfg bodyFormat data (send R (GetPages k limit start) s))),
           snd (enrichListing R cfg bodyFormat data (send R (GetPages k limit start) s)))) \<and>
   (getPage R cfg pageId None s = (Inr parent, s1) \<longrightarrow>
    pagesResponse R (calls s1) (GetChildren pageId limit start) = Inr data \<longrightarrow>
      getPageChildren R cfg pageId limit start bodyFormat s
        = (Inr (fst (enrichListing R cfg bodyFormat data (send R (GetChildren pageId limit start) s1))),
           snd (enrichListing R cfg bodyFormat data (send R (GetChildren pageId limit start) s1)))) \<and>
   (enrichListing R cfg bodyFormat data s0 = (data', s') \<longrightarrow>
      data' = data\<lparr>r_results := r_results data'\<rparr> \<and>
      length (r_results data') = length (r_results data) \<and>
      (\<forall>i < length (r_results data).
         r_results data' ! i = r_results data ! i \<or>
         (\<exists>b. r_results data' ! i = (r_results data ! i)\<lparr>p_body := Some b\<rparr>)) \<and>
      (\<not> debug cfg \<longrightarrow> warnings s' = warnings s0) \<and>
      (given bodyFormat \<longrightarrow>
         (\<forall>before page after e. r_results data = before @ page # after \<longrightarrow>
            pageResponse R (calls (snd (enrichAll R cfg (bodyFormatField bodyFormat) before s0)))
              (GetContent (p_id page) (bodyFormatField bodyFormat @ '',version,space'')) = Inl e \<longrightarrow>
            r_results data' ! length before = page \<and>
            (debug cfg \<longrightarrow> bodyWarning page \<in> set (warnings s')))))"
proof (intro conjI impI allI)
  assume "k \<in> set (allowedSpaces cfg)" "pagesResponse R (calls s) (GetPages k limit start) = Inr data"
  then show "getSpaceContent R cfg k limit start bodyFormat s
        = (Inr (fst (enrichListing R cfg bodyFormat data (send R (GetPages k limit start) s))),
           snd (enrichListing R cfg bodyFormat data (send R (GetPages k limit start) s)))"
    by (simp add: getSpaceContent_def validateSpaceAccess_def split: prod.splits)
next
  assume g: "getPage R cfg pageId None s = (Inr parent, s1)"
    and l: "pagesResponse R (calls s1) (GetChildren pageId limit start) = Inr data"
  from getPage_Inr [OF g] obtain k' where "pageSpaceKey parent = Some k'" "k' \<in> set (allowedSpaces cfg)"
    by blast
  with g l show "getPageChildren R cfg pageId limit start bodyFormat s
        = (Inr (fst (enrichListing R cfg bodyFormat data (send R (GetChildren pageId limit start) s1))),
           snd (enrichListing R cfg bodyFormat data (send R (GetChildren pageId limit start) s1)))"
    by (simp add: getPageChildren_def validateSpaceAccess_def split: prod.splits)
next
  assume e: "enrichListing R cfg bodyFormat data s0 = (data', s')"
  from enrichListing_results [OF e] show "data' = data\<lparr>r_results := r_results data'\<rparr>"
    by blast
next
  assume e: "enrichListing R cfg bodyFormat data s0 = (data', s')"
  show "length (r_results data') = length (r_results data)"
  proof (cases "given bodyFormat")
    case True
    with enrichListing_results [OF e] enrichAll_pages show ?thesis by metis
  next
    case False
    with enrichListing_results [OF e] show ?thesis by simp
  qed
next
  fix i
  assume e: "enrichListing R cfg bodyFormat data s0 = (data', s')"
    and i: "i < length (r_results data)"
  show "r_results data' ! i = r_results data ! i \<or>
         (\<exists>b. r_results data' ! i = (r_results data ! i)\<lparr>p_body := Some b\<rparr>)"
  proof (cases "given bodyFormat")
    case True
    with enrichListing_results [OF e]
    have "enrichAll R cfg (bodyFormatField bodyFormat) (r_results data) s0 = (r_results data', s')"
      by simp
    from enrichAll_pages [OF this] i show ?thesis by blast
  next
    case False
    with enrichListing_results [OF e] show ?thesis by simp
  qed
next
  assume e: "enrichListing R cfg bodyFormat data s0 = (data', s')" and d: "\<not> debug cfg"
  show "warnings s' = warnings s0"
  proof (cases "given bodyFormat")
    case True
    with enrichListing_results [OF e]
    have "enrichAll R cfg (bodyFormatField bodyFormat) (r_results data) s0 = (r_results data', s')"
      by simp
    from enrichAll_pages [OF this] d show ?thesis by blast
  next
    case False
    with enrichListing_results [OF e] show ?thesis by simp
  qed
next
  fix before page after e
  assume e: "enrichListing R cfg bodyFormat data s0 = (data', s')" and g: "given bodyFormat"
    and split: "r_results data = before @ page # after"
    and fail: "pageResponse R (calls (snd (enrichAll R cfg (bodyFormatField bodyFormat) before s0)))
              (GetContent (p_id page) (bodyFormatField bodyFormat @ '',version,space'')) = Inl e"
  from enrichListing_results [OF e] g split
  have "enrichAll R cfg (bodyFormatField bodyFormat) (before @ page # after) s0 = (r_results data', s')"
    by simp
  from enrichAll_failed [OF this fail]
  show "r_results data' ! length before = page" "debug cfg \<Longrightarrow> bodyWarning page \<in> set (warnings s')"
    by simp_all
qed


theorem body_enrichment_failure_is_not_fatal_witness:
  "''DEV'' \<in> set (allowedSpaces devDebug) \<and> debug devDebug \<and> given (Some ''storage'') \<and>
   getSpaceContent brokenBodies devDebug ''DEV'' 25 0 (Some ''storage'') (newClient 0)
     = (Inr oneListed,
        (newClient 0)\<lparr>calls := [GetPages ''DEV'' 25 0,
                                  GetContent ''7'' ''body.storage,version,space''],
                       warnings := [''Failed to retrieve body content for page 7:'']\<rparr>) \<and>
   r_results oneListed ! 0 = mkPage ''7'' ''DEV'' 1"
proof -
  let ?list = "GetPages ''DEV'' 25 0"
  let ?s0 = "send brokenBodies ?list (newClient 0)"
  let ?s' = "(newClient 0)\<lparr>calls := [?list, GetContent ''7'' ''body.storage,version,space''],
                       warnings := [''Failed to retrieve body content for page 7:'']\<rparr>"
  have k: "''DEV'' \<in> set (allowedSpaces devDebug)" and d: "debug devDebug"
    by (simp_all add: devDebug_def devOnly_def)
  have g: "given (Some ''storage'')"
    by (simp add: given_def)
  have l: "pagesResponse brokenBodies (calls (newClient 0)) ?list = Inr oneListed"
    by (simp add: brokenBodies_def oneListed_def)
  have el: "enrichListing brokenBodies devDebug (Some ''storage'') oneListed ?s0 = (oneListed, ?s')"
    by (simp add: enrichListing_def enrichPage_def devDebug_def devOnly_def brokenBodies_def
        deadRemote_def oneListed_def newClient_def send_def given_def bodyFormatField_def
        bodyWarning_def mkPage_def Let_def)
  have sp: "r_results oneListed = [] @ mkPage ''7'' ''DEV'' 1 # []"
    by (simp add: oneListed_def)
  have f: "pageResponse brokenBodies
      (calls (snd (enrichAll brokenBodies devDebug (bodyFormatField (Some ''storage'')) [] ?s0)))
      (GetContent (p_id (mkPage ''7'' ''DEV'' 1)) (bodyFormatField (Some ''storage'') @ '',version,space''))
      = Inl notFound"
    by (simp add: brokenBodies_def deadRemote_def)
  note main = body_enrichment_failure_is_not_fatal
    [of "''DEV''" devDebug brokenBodies "newClient 0" 25 0 oneListed "Some ''storage''"
      _ _ _ ?s0 oneListed ?s']
  from main [THEN conjunct1] k l
  have run: "getSpaceContent brokenBodies devDebug ''DEV'' 25 0 (Some ''storage'') (newClient 0)
     = (Inr oneListed, ?s')"
    by (simp add: el)
  from main [THEN conjunct2, THEN conjunct2] el g sp f
  have "r_results oneListed ! length ([] :: ConfluencePage list) = mkPage ''7'' ''DEV'' 1"
    by blast
  then have at: "r_results oneListed ! 0 = mkPage ''7'' ''DEV'' 1"
    by simp
  from k d g run at show ?thesis by (intro conjI)
qed


end
